theory Spec2Isabelle
  imports Complex_Main
begin

section \<open>JavaScript strings and values\<close>

text \<open>
  A JavaScript string is a sequence of code units. The model keeps the code units below
  256 (ASCII and the Latin-1 supplement), one \<open>char\<close> each, so \<open>length\<close> is the source's
  \<open>.length\<close>.
\<close>

definition code :: "char \<Rightarrow> nat" where
  "code c = of_char c"

text \<open>
  The regular-expression classes \<open>\s\<close> (white space and line terminators), \<open>\d\<close>,
  \<open>[A-Za-z]\<close> and \<open>\w\<close>, on these code units.
\<close>

definition is_space :: "char \<Rightarrow> bool" where
  "is_space c \<longleftrightarrow> code c \<in> {9, 10, 11, 12, 13, 32, 160}"

definition is_digit :: "char \<Rightarrow> bool" where
  "is_digit c \<longleftrightarrow> 48 \<le> code c \<and> code c \<le> 57"

definition is_alpha :: "char \<Rightarrow> bool" where
  "is_alpha c \<longleftrightarrow> (65 \<le> code c \<and> code c \<le> 90) \<or> (97 \<le> code c \<and> code c \<le> 122)"

definition is_word :: "char \<Rightarrow> bool" where
  "is_word c \<longleftrightarrow> is_alpha c \<or> is_digit c \<or> c = CHR ''_''"

text \<open>
  \<open>String.prototype.toLowerCase\<close>, one code unit at a time: the upper-case letters
  \<open>A\<close>-\<open>Z\<close> (65-90) and the Latin-1 capitals (192-222 without the multiplication sign 215)
  move up by 32, which sets bit 5 of the code unit; every other unit stays.
\<close>

fun add32 :: "char \<Rightarrow> char" where
  "add32 (Char b0 b1 b2 b3 b4 b5 b6 b7) = Char b0 b1 b2 b3 b4 True b6 b7"

definition lower_char :: "char \<Rightarrow> char" where
  "lower_char c =
    (if (65 \<le> code c \<and> code c \<le> 90) \<or> (192 \<le> code c \<and> code c \<le> 222 \<and> code c \<noteq> 215)
     then add32 c else c)"

definition toLowerCase :: "string \<Rightarrow> string" where
  "toLowerCase s = map lower_char s"

text \<open>\<open>startsWith\<close>, \<open>endsWith\<close>, \<open>includes\<close>, \<open>split\<close> on a one-character separator, \<open>join\<close>, \<open>trim\<close>.\<close>

fun starts_with :: "string \<Rightarrow> string \<Rightarrow> bool" where
  "starts_with [] s = True"
| "starts_with (p # ps) [] = False"
| "starts_with (p # ps) (c # cs) = (p = c \<and> starts_with ps cs)"

definition ends_with :: "string \<Rightarrow> string \<Rightarrow> bool" where
  "ends_with suffix s = starts_with (rev suffix) (rev s)"

fun js_includes :: "string \<Rightarrow> string \<Rightarrow> bool" where
  "js_includes [] sub = (sub = [])"
| "js_includes (c # cs) sub = (starts_with sub (c # cs) \<or> js_includes cs sub)"

fun js_split :: "char \<Rightarrow> string \<Rightarrow> string list" where
  "js_split sep [] = [[]]"
| "js_split sep (c # cs) =
    (if c = sep then [] # js_split sep cs
     else (case js_split sep cs of w # ws \<Rightarrow> (c # w) # ws | [] \<Rightarrow> [[c]]))"

fun js_join :: "string \<Rightarrow> string list \<Rightarrow> string" where
  "js_join sep [] = []"
| "js_join sep [x] = x"
| "js_join sep (x # y # ys) = x @ sep @ js_join sep (y # ys)"

definition trim :: "string \<Rightarrow> string" where
  "trim s = rev (dropWhile is_space (rev (dropWhile is_space s)))"

text \<open>
  A literal pattern matched at the start of a string under the flag \<open>i\<close>. All the literals
  of the source's patterns are ASCII, for which the flag's canonicalisation agrees with
  comparing the lower-cased code units.
\<close>

definition ci_starts_with :: "string \<Rightarrow> string \<Rightarrow> bool" where
  "ci_starts_with p s = starts_with (toLowerCase p) (toLowerCase s)"

fun ci_includes :: "string \<Rightarrow> string \<Rightarrow> bool" where
  "ci_includes [] p = (p = [])"
| "ci_includes (c # cs) p = (ci_starts_with p (c # cs) \<or> ci_includes cs p)"

text \<open>
  An integer in a template literal: its decimal digits, with a sign when negative (as
  JavaScript prints every integer below \<open>10\<^sup>2\<^sup>1\<close> in absolute value).
\<close>

definition digit_char :: "nat \<Rightarrow> char" where
  "digit_char d = ''0123456789'' ! (d mod 10)"

fun nat_toString :: "nat \<Rightarrow> string" where
  "nat_toString n = (if n < 10 then [digit_char n] else nat_toString (n div 10) @ [digit_char n])"

declare nat_toString.simps [simp del]

definition int_toString :: "int \<Rightarrow> string" where
  "int_toString i = (if i < 0 then CHR ''-'' # nat_toString (nat (- i)) else nat_toString (nat i))"

text \<open>
  JavaScript values, as far as the pipeline reads them: \<open>undefined\<close>, the JSON data model,
  the objects of the runtime's library, and objects whose prototype has been set. A number
  is an IEEE double; the model carries the real number it denotes and leaves \<open>NaN\<close> and
  the infinities out. \<open>JObj props\<close> is an ordinary object with the own properties
  \<open>props\<close>, in the order in which they are enumerated, and the prototype
  \<open>Object.prototype\<close>; an array is a list without holes. \<open>JBuiltin b\<close> is the object or function that the runtime's library holds
  under the name \<open>b\<close> (\<open>Object.prototype\<close>, the constructor \<open>Object\<close>, a method).
  \<open>JDerived proto props\<close> is an ordinary object with the own properties \<open>props\<close> whose
  prototype is \<open>proto\<close>, an object or \<open>null\<close>.
\<close>

type_synonym js_number = real

datatype js_value =
    JUndefined
  | JNull
  | JBool bool
  | JNum js_number
  | JStr string
  | JArr "js_value list"
  | JObj "(string \<times> js_value) list"
  | JBuiltin string
  | JDerived js_value "(string \<times> js_value) list"

definition nullish :: "js_value \<Rightarrow> bool" where
  "nullish v \<longleftrightarrow> v = JUndefined \<or> v = JNull"

definition is_object :: "js_value \<Rightarrow> bool" where
  "is_object v =
    (case v of JArr _ \<Rightarrow> True | JObj _ \<Rightarrow> True | JBuiltin _ \<Rightarrow> True | JDerived _ _ \<Rightarrow> True | _ \<Rightarrow> False)"

text \<open>
  A thrown value. JavaScript lets a program throw any value: the model has the \<open>Error\<close>
  objects (of any class), each with its \<open>message\<close>, and the primitive values, among them
  the \<open>undefined\<close> of a promise rejected without a reason. Objects that are thrown without
  being \<open>Error\<close> objects are outside the model.
\<close>

datatype primitive =
    PUndefined
  | PNull
  | PBool bool
  | PNum js_number
  | PStr string

datatype error = Error string | Thrown primitive

text \<open>
  The TypeError of the runtime, as thrown by a property read on \<open>null\<close> or \<open>undefined\<close>
  and by a refused assignment; its text is the engine's.
\<close>

definition TypeError :: error where
  "TypeError = Error ''TypeError''"

text \<open>
  \<open>error.message\<close> in a \<open>catch\<close> block: the message of an \<open>Error\<close> object; a TypeError of
  its own on \<open>null\<close> and \<open>undefined\<close>; and \<open>undefined\<close> on the other primitive values,
  whose prototypes have no such property. \<open>message_text\<close> is that value in a template
  literal.
\<close>

fun message :: "error \<Rightarrow> error + js_value" where
  "message (Error m) = Inr (JStr m)"
| "message (Thrown PUndefined) = Inl TypeError"
| "message (Thrown PNull) = Inl TypeError"
| "message (Thrown (PBool b)) = Inr JUndefined"
| "message (Thrown (PNum n)) = Inr JUndefined"
| "message (Thrown (PStr s)) = Inr JUndefined"

definition message_text :: "error \<Rightarrow> error + string" where
  "message_text e =
    (case message e of
       Inl thrown \<Rightarrow> Inl thrown
     | Inr (JStr m) \<Rightarrow> Inr m
     | Inr _ \<Rightarrow> Inr ''undefined'')"

text \<open>
  The built-ins of the runtime that the code calls and that are not code of the
  repository: \<open>JSON.parse\<close> (\<open>None\<close> when it throws a SyntaxError), \<open>parseFloat\<close> with
  its rounding, the string conversion of a number, and \<open>new URL(url).hostname\<close> (\<open>None\<close>
  when the constructor throws). And the objects of its library: \<open>builtin_get b p\<close> is what
  reading the property \<open>p\<close> (any name but \<open>__proto__\<close>) on the library object \<open>b\<close> gives,
  its own property or one it inherits, \<open>undefined\<close> when there is none;
  \<open>builtin_prototype b\<close> is the prototype of \<open>b\<close>; \<open>builtin_readonly b p\<close> says that an
  assignment to \<open>p\<close> on an object that inherits from \<open>b\<close> is refused, because \<open>b\<close> has or
  inherits \<open>p\<close> as a property that cannot be written (as \<open>String.prototype\<close> has
  \<open>length\<close>); \<open>object_toString\<close> is the string conversion of an object for which the data
  alone do not fix it, or the error it throws.
\<close>

record js_runtime =
  JSON_parse :: "string \<Rightarrow> js_value option"
  parseFloat :: "string \<Rightarrow> js_number"
  number_toString :: "js_number \<Rightarrow> string"
  URL_hostname :: "string \<Rightarrow> string option"
  builtin_get :: "string \<Rightarrow> string \<Rightarrow> js_value"
  builtin_prototype :: "string \<Rightarrow> js_value"
  builtin_readonly :: "string \<Rightarrow> string \<Rightarrow> bool"
  object_toString :: "js_value \<Rightarrow> error + string"

section \<open>Rate Limiter (SecurityMiddleware.rateLimit)\<close>

text \<open>
  The security configuration, as declared by the interface \<open>SecurityConfig\<close>. Every field
  is optional in the source; an absent field is \<open>None\<close>, and an absent \<open>sanitizeInput\<close> is
  \<open>False\<close> (the code only tests its truthiness). \<open>maxRequests\<close> and \<open>windowMs\<close> are declared
  \<open>number\<close>, so they need not be whole; like them the stored count, the clock reading and
  the reset time are numbers, each modelled by the real number it denotes (\<open>NaN\<close>, the
  infinities and the rounding of large values are left out). The length bound of the
  input is kept a whole number.
\<close>

record rate_limit_config =
  maxRequests :: js_number
  windowMs :: js_number

record security_config =
  rateLimit_cfg :: "rate_limit_config option"
  maxInputLength :: "int option"
  allowedDomains :: "string list option"
  sanitizeInput_cfg :: bool

text \<open>One entry of \<open>rateLimitStore\<close>, a \<open>Map\<close> from key to \<open>{count, resetTime}\<close>.\<close>

record rate_window_entry =
  count :: js_number
  resetTime :: js_number

type_synonym rate_limit_store = "string \<rightharpoonup> rate_window_entry"

text \<open>The object returned by \<open>rateLimit\<close>.\<close>

record rate_limit_result =
  allowed :: bool
  remaining :: js_number
  res_resetTime :: js_number

text \<open>
  \<open>rateLimit(key)\<close>, with the clock reading \<open>Date.now()\<close> passed as \<open>now\<close> and the store
  threaded through: the function returns the result together with the updated store.
\<close>

definition rateLimit ::
  "security_config \<Rightarrow> rate_limit_store \<Rightarrow> string \<Rightarrow> js_number \<Rightarrow> rate_limit_result \<times> rate_limit_store"
where
  "rateLimit cfg store key now =
    (case rateLimit_cfg cfg of
       None \<Rightarrow> (\<lparr>allowed = True, remaining = - 1, res_resetTime = 0\<rparr>, store)
     | Some rl \<Rightarrow>
        (let reset = now + windowMs rl * 1000 in
         case store key of
           None \<Rightarrow>
             (\<lparr>allowed = True, remaining = maxRequests rl - 1, res_resetTime = reset\<rparr>,
              store(key \<mapsto> \<lparr>count = 1, resetTime = reset\<rparr>))
         | Some current \<Rightarrow>
             if resetTime current \<le> now then
               (\<lparr>allowed = True, remaining = maxRequests rl - 1, res_resetTime = reset\<rparr>,
                store(key \<mapsto> \<lparr>count = 1, resetTime = reset\<rparr>))
             else if count current \<ge> maxRequests rl then
               (\<lparr>allowed = False, remaining = 0, res_resetTime = resetTime current\<rparr>, store)
             else
               (\<lparr>allowed = True, remaining = maxRequests rl - (count current + 1),
                 res_resetTime = resetTime current\<rparr>,
                store(key \<mapsto> current\<lparr>count := count current + 1\<rparr>))))"

text \<open>
  Successive calls of \<open>rateLimit\<close> on the one shared store: each request is a key and the
  clock reading at which it arrives. The results are returned in request order.
\<close>

fun rateLimit_calls ::
  "security_config \<Rightarrow> rate_limit_store \<Rightarrow> (string \<times> js_number) list
     \<Rightarrow> (string \<times> rate_limit_result) list \<times> rate_limit_store"
where
  "rateLimit_calls cfg store [] = ([], store)"
| "rateLimit_calls cfg store ((key, now) # reqs) =
    (let (r, store') = rateLimit cfg store key now;
         (rs, store'') = rateLimit_calls cfg store' reqs
     in ((key, r) # rs, store''))"

text \<open>The results returned to one key, in order.\<close>

definition results_for :: "string \<Rightarrow> (string \<times> rate_limit_result) list \<Rightarrow> rate_limit_result list" where
  "results_for key rs = map snd (filter (\<lambda>p. fst p = key) rs)"

text \<open>\<open>cleanupRateLimitStore\<close>: every entry whose window has elapsed is deleted.\<close>

definition cleanupRateLimitStore :: "rate_limit_store \<Rightarrow> js_number \<Rightarrow> rate_limit_store" where
  "cleanupRateLimitStore store now =
    (\<lambda>key. case store key of
             None \<Rightarrow> None
           | Some v \<Rightarrow> if resetTime v \<le> now then None else Some v)"

section \<open>Input Guard (SecurityMiddleware.validateInput)\<close>

subsection \<open>sanitizeInput\<close>

text \<open>
  The four steps of \<open>sanitizeInput\<close>: \<open>.replace(/\0/g, '')\<close> drops the null bytes,
  \<open>.replace(/[\x00-\x08\x0B\x0C\x0E-\x1F\x7F]/g, '')\<close> drops the control characters,
  \<open>.replace(/\s+/g, ' ')\<close> turns every maximal run of white space into one space, and
  \<open>.trim()\<close> strips white space at both ends.
\<close>

definition is_control :: "char \<Rightarrow> bool" where
  "is_control c \<longleftrightarrow>
     code c \<le> 8 \<or> code c = 11 \<or> code c = 12 \<or> (14 \<le> code c \<and> code c \<le> 31) \<or> code c = 127"

function collapse_whitespace :: "string \<Rightarrow> string" where
  "collapse_whitespace [] = []"
| "collapse_whitespace (c # cs) =
    (if is_space c then CHR '' '' # collapse_whitespace (dropWhile is_space cs)
     else c # collapse_whitespace cs)"
  by pat_completeness auto
termination
  by (relation "measure length") (auto simp: length_dropWhile_le less_Suc_eq_le)

definition sanitizeInput :: "string \<Rightarrow> string" where
  "sanitizeInput input =
     trim (collapse_whitespace (filter (\<lambda>c. \<not> is_control c) (filter (\<lambda>c. code c \<noteq> 0) input)))"

subsection \<open>Normal form of sanitized text\<close>

text \<open>
  A text in which every white-space character is a single space and no two of them are
  adjacent: what \<open>.replace(/\s+/g, ' ')\<close> produces, and leaves as it is.
\<close>

fun normal_ws :: "string \<Rightarrow> bool" where
  "normal_ws [] = True"
| "normal_ws [c] = (is_space c \<longrightarrow> c = CHR '' '')"
| "normal_ws (c # d # cs) = ((is_space c \<longrightarrow> c = CHR '' '' \<and> \<not> is_space d) \<and> normal_ws (d # cs))"

subsection \<open>containsMaliciousContent\<close>

text \<open>
  \<open>/(\b(k1|k2|...)\b)/i.test(input)\<close>: some keyword stands in the input between two word
  boundaries. Every keyword starts and ends with a word character, so the boundary in
  front asks that the preceding character is no word character (or that there is none),
  and the boundary behind the same of the following character. The scan carries whether
  the preceding character is a word character.
\<close>

definition boundary_here :: "string \<Rightarrow> bool" where
  "boundary_here rest = (case rest of [] \<Rightarrow> True | c # _ \<Rightarrow> \<not> is_word c)"

definition keyword_at :: "string list \<Rightarrow> string \<Rightarrow> bool" where
  "keyword_at kws s = list_ex (\<lambda>k. ci_starts_with k s \<and> boundary_here (drop (length k) s)) kws"

fun keyword_scan :: "string list \<Rightarrow> bool \<Rightarrow> string \<Rightarrow> bool" where
  "keyword_scan kws prev_word [] = False"
| "keyword_scan kws prev_word (c # cs) =
    ((\<not> prev_word \<and> keyword_at kws (c # cs)) \<or> keyword_scan kws (is_word c) cs)"

definition sql_pattern :: "string \<Rightarrow> bool" where
  "sql_pattern input =
     keyword_scan [''union'', ''select'', ''insert'', ''update'', ''delete'', ''drop'', ''create'', ''alter'']
       False input"

definition command_pattern :: "string \<Rightarrow> bool" where
  "command_pattern input =
     keyword_scan [''cmd'', ''powershell'', ''bash'', ''sh'', ''exec'', ''system'', ''eval''] False input"

text \<open>
  \<open>/<script\b[^<]*(?:(?!<\/script>)<[^<]*)*<\/script>/gi.test(input)\<close>, on a pattern object
  made afresh at every call: an opening \<open><script\<close> followed by a word boundary (a
  character that is no word character), and a closing \<open></script>\<close> somewhere behind it.
  What lies between is matched by \<open>[^<]*\<close> and the repeated group, which passes every
  \<open><\<close> that does not open the closing tag.
\<close>

definition script_at :: "string \<Rightarrow> bool" where
  "script_at s \<longleftrightarrow>
     ci_starts_with ''<script'' s \<and>
     (case drop 7 s of [] \<Rightarrow> False | c # rest \<Rightarrow> \<not> is_word c \<and> ci_includes (c # rest) ''</script>'')"

fun xss_pattern :: "string \<Rightarrow> bool" where
  "xss_pattern [] = False"
| "xss_pattern (c # cs) = (script_at (c # cs) \<or> xss_pattern cs)"

text \<open>\<open>/\.\.\//\<close> and \<open>/\.(php|asp|jsp|exe|bat|cmd|ps1)$/i\<close>.\<close>

definition traversal_pattern :: "string \<Rightarrow> bool" where
  "traversal_pattern input = js_includes input ''../''"

definition extension_pattern :: "string \<Rightarrow> bool" where
  "extension_pattern input =
     list_ex (\<lambda>ext. ci_starts_with (rev (CHR ''.'' # ext)) (rev input))
       [''php'', ''asp'', ''jsp'', ''exe'', ''bat'', ''cmd'', ''ps1'']"

definition containsMaliciousContent :: "string \<Rightarrow> bool" where
  "containsMaliciousContent input \<longleftrightarrow>
     sql_pattern input \<or> xss_pattern input \<or> command_pattern input
     \<or> traversal_pattern input \<or> extension_pattern input"

subsection \<open>External URLs and the domain allowlist\<close>

text \<open>
  \<open>/https?:\/\/[^\s]+/gi\<close> anchored at the start of a string: the length of its match,
  which runs through the maximal run of characters that are no white space.
\<close>

definition url_at :: "string \<Rightarrow> nat option" where
  "url_at s =
    (if ci_starts_with ''https://'' s \<and> takeWhile (\<lambda>c. \<not> is_space c) (drop 8 s) \<noteq> []
       then Some (8 + length (takeWhile (\<lambda>c. \<not> is_space c) (drop 8 s)))
     else if ci_starts_with ''http://'' s \<and> takeWhile (\<lambda>c. \<not> is_space c) (drop 7 s) \<noteq> []
       then Some (7 + length (takeWhile (\<lambda>c. \<not> is_space c) (drop 7 s)))
     else None)"

fun containsExternalUrls :: "string \<Rightarrow> bool" where
  "containsExternalUrls [] = False"
| "containsExternalUrls (c # cs) = (url_at (c # cs) \<noteq> None \<or> containsExternalUrls cs)"

text \<open>\<open>input.match(urlPattern) || []\<close>: all matches, from left to right.\<close>

function extractUrls :: "string \<Rightarrow> string list" where
  "extractUrls [] = []"
| "extractUrls (c # cs) =
    (case url_at (c # cs) of
       Some n \<Rightarrow> take n (c # cs) # extractUrls (drop n (c # cs))
     | None \<Rightarrow> extractUrls cs)"
  by pat_completeness auto
termination
  by (relation "measure length") (auto simp: url_at_def split: if_splits)

definition isAllowedDomain :: "js_runtime \<Rightarrow> security_config \<Rightarrow> string \<Rightarrow> bool" where
  "isAllowedDomain rt cfg url =
    (case allowedDomains cfg of
       None \<Rightarrow> True
     | Some domains \<Rightarrow>
        (case URL_hostname rt url of
           None \<Rightarrow> False
         | Some domain \<Rightarrow>
             list_ex (\<lambda>allowed. domain = allowed \<or> ends_with (CHR ''.'' # allowed) domain) domains))"

subsection \<open>validateInput\<close>

text \<open>
  The result object. \<open>sanitizedInput\<close> and \<open>errors\<close> are \<open>None\<close> where the source leaves
  them out or sets them to \<open>undefined\<close>.
\<close>

record validation_result =
  isValid :: bool
  sanitizedInput :: "string option"
  errors :: "string list option"

text \<open>
  \<open>validateInput(input)\<close>. The parameter is declared a string, and the first test is made
  for callers that pass something else, so the model takes any value. \<open>errors1\<close>,
  \<open>errors2\<close> and \<open>errors3\<close> are the array \<open>errors\<close> after the length check, the check for
  malicious content and the check of the URLs.
\<close>

definition validateInput :: "js_runtime \<Rightarrow> security_config \<Rightarrow> js_value \<Rightarrow> validation_result" where
  "validateInput rt cfg input =
    (case input of
       JStr s \<Rightarrow>
         if s = [] then
           \<lparr>isValid = False, sanitizedInput = None, errors = Some [''Input must be a non-empty string'']\<rparr>
         else
           (let errors1 =
                  (case maxInputLength cfg of
                     Some m \<Rightarrow>
                       if m \<noteq> 0 \<and> int (length s) > m
                       then [''Input length exceeds maximum allowed length of '' @ int_toString m
                               @ '' characters'']
                       else []
                   | None \<Rightarrow> []);
                sanitized = (if sanitizeInput_cfg cfg then sanitizeInput s else s);
                errors2 =
                  (if containsMaliciousContent sanitized
                   then errors1 @ [''Input contains potentially malicious content'']
                   else errors1);
                errors3 =
                  (if allowedDomains cfg \<noteq> None \<and> containsExternalUrls sanitized then
                     (let disallowedUrls =
                            filter (\<lambda>url. \<not> isAllowedDomain rt cfg url) (extractUrls sanitized)
                      in if length disallowedUrls > 0
                         then errors2 @ [''External URLs not allowed: '' @ js_join '', '' disallowedUrls]
                         else errors2)
                   else errors2)
            in \<lparr>isValid = (length errors3 = 0),
                sanitizedInput = (if length errors3 = 0 then Some sanitized else None),
                errors = (if length errors3 > 0 then Some errors3 else None)\<rparr>)
     | _ \<Rightarrow>
         \<lparr>isValid = False, sanitizedInput = None, errors = Some [''Input must be a non-empty string'']\<rparr>)"

subsection \<open>The steps of validateInput, one by one\<close>

text \<open>
  What each step of the Input Guard reports on its own, in the words of its contract: the
  length check on the raw input, the malicious-content check and the domain allowlist on
  the text that the sanitization step hands on. \<open>all_checks\<close> puts the reports one behind
  the other, in the order of the steps.
\<close>

definition non_empty_string :: "js_value \<Rightarrow> bool" where
  "non_empty_string v = (case v of JStr s \<Rightarrow> s \<noteq> [] | _ \<Rightarrow> False)"

definition length_check :: "security_config \<Rightarrow> string \<Rightarrow> string list" where
  "length_check cfg s =
    (case maxInputLength cfg of
       Some m \<Rightarrow>
         if m \<noteq> 0 \<and> int (length s) > m
         then [''Input length exceeds maximum allowed length of '' @ int_toString m @ '' characters'']
         else []
     | None \<Rightarrow> [])"

definition sanitized_text :: "security_config \<Rightarrow> string \<Rightarrow> string" where
  "sanitized_text cfg s = (if sanitizeInput_cfg cfg then sanitizeInput s else s)"

definition malicious_check :: "string \<Rightarrow> string list" where
  "malicious_check sanitized =
    (if containsMaliciousContent sanitized then [''Input contains potentially malicious content''] else [])"

definition domain_check :: "js_runtime \<Rightarrow> security_config \<Rightarrow> string \<Rightarrow> string list" where
  "domain_check rt cfg sanitized =
    (if allowedDomains cfg \<noteq> None \<and> containsExternalUrls sanitized
        \<and> filter (\<lambda>url. \<not> isAllowedDomain rt cfg url) (extractUrls sanitized) \<noteq> []
     then [''External URLs not allowed: ''
             @ js_join '', '' (filter (\<lambda>url. \<not> isAllowedDomain rt cfg url) (extractUrls sanitized))]
     else [])"

definition all_checks :: "js_runtime \<Rightarrow> security_config \<Rightarrow> string \<Rightarrow> string list" where
  "all_checks rt cfg s =
     length_check cfg s @ malicious_check (sanitized_text cfg s) @ domain_check rt cfg (sanitized_text cfg s)"

section \<open>Parameter Resolver (DefaultToolCreationStrategy)\<close>

text \<open>
  \<open>ToolParameter\<close> and \<open>ToolMetadata\<close>, with the fields the pipeline reads. An absent
  \<open>required\<close> is \<open>False\<close> (only its truthiness is read). \<open>parameters\<close> is the record from
  parameter name to configuration, in the order of \<open>Object.entries\<close>. \<open>owner_instance\<close> is
  the identity of the object the tool was registered with (the source's \<open>instance\<close>), and
  \<open>tool_method\<close> is that object's method \<open>instance[methodName]\<close>: from the argument to
  the value it resolves to, or to the error it throws.
\<close>

record tool_parameter =
  param_type :: string
  param_description :: string
  param_enum :: "string list option"
  required :: bool

record tool_metadata =
  tool_name :: string
  tool_description :: string
  parameters :: "(string \<times> tool_parameter) list option"
  methodName :: string
  owner_instance :: nat
  tool_method :: "js_value \<Rightarrow> error + js_value"

subsection \<open>The patterns of extractParameterFromString\<close>

text \<open>
  \<open>input.match(pattern)\<close> without the flag \<open>g\<close> returns the leftmost match: the pattern is
  tried at every start position in turn. Each pattern below is given anchored at the
  start of a string, returning what the code reads from the match.
\<close>

fun leftmost :: "(string \<Rightarrow> 'a option) \<Rightarrow> string \<Rightarrow> 'a option" where
  "leftmost m [] = m []"
| "leftmost m (c # cs) = (case m (c # cs) of Some r \<Rightarrow> Some r | None \<Rightarrow> leftmost m cs)"

fun first_some :: "('a \<Rightarrow> 'b option) \<Rightarrow> 'a list \<Rightarrow> 'b option" where
  "first_some f [] = None"
| "first_some f (x # xs) = (case f x of Some r \<Rightarrow> Some r | None \<Rightarrow> first_some f xs)"

text \<open>
  \<open>/(?:in|for|at)\s+([A-Za-z\s]+?)(?:\?|$|,|\.)/i\<close>, group 1. Behind the preposition the
  pattern needs white space, then at least one character of \<open>[A-Za-z\s]\<close>, up to the first
  character outside that class, which must be \<open>?\<close>, \<open>,\<close>, \<open>.\<close> or the end of the input. The
  greedy \<open>\s+\<close> takes all the leading white space it can while leaving the group one
  character.
\<close>

definition city_at :: "string \<Rightarrow> string option" where
  "city_at s =
     first_some
       (\<lambda>w. if ci_starts_with w s then
              (let rest = drop (length w) s;
                   run = takeWhile (\<lambda>c. is_alpha c \<or> is_space c) rest;
                   after = drop (length run) rest
               in if (case rest of [] \<Rightarrow> False | c # _ \<Rightarrow> is_space c) \<and> 2 \<le> length run
                     \<and> (case after of [] \<Rightarrow> True | c # _ \<Rightarrow> c \<in> set ''?,.'')
                  then Some (drop (min (length (takeWhile is_space run)) (length run - 1)) run)
                  else None)
            else None)
       [''in'', ''for'', ''at'']"

text \<open>\<open>/"([^"]+)"/\<close>, group 1: a double quote (code unit 34), one or more other characters, a double quote.\<close>

definition quoted_at :: "string \<Rightarrow> string option" where
  "quoted_at s =
    (case s of
       [] \<Rightarrow> None
     | c # rest \<Rightarrow>
        (let run = takeWhile (\<lambda>d. d \<noteq> CHR 0x22) rest
         in if c = CHR 0x22 \<and> run \<noteq> [] \<and> drop (length run) rest \<noteq> [] then Some run else None))"

text \<open>\<open>/(add|subtract|multiply|divide|power|sqrt)/i\<close>, group 1.\<close>

definition operation_at :: "string \<Rightarrow> string option" where
  "operation_at s =
     first_some (\<lambda>w. if ci_starts_with w s then Some (take (length w) s) else None)
       [''add'', ''subtract'', ''multiply'', ''divide'', ''power'', ''sqrt'']"

text \<open>
  \<open>/(\d+(?:\.\d+)?)/g\<close>: the length of the match anchored at the start of a string, and
  all the matches from left to right, as \<open>input.match\<close> returns them under the flag \<open>g\<close>.
\<close>

definition number_at :: "string \<Rightarrow> nat option" where
  "number_at s =
    (let digits = takeWhile is_digit s; rest = drop (length digits) s
     in if digits = [] then None
        else (case rest of
                c1 # c2 # _ \<Rightarrow>
                  if c1 = CHR ''.'' \<and> is_digit c2
                  then Some (length digits + 1 + length (takeWhile is_digit (tl rest)))
                  else Some (length digits)
              | _ \<Rightarrow> Some (length digits)))"

function number_matches :: "string \<Rightarrow> string list" where
  "number_matches [] = []"
| "number_matches (c # cs) =
    (case number_at (c # cs) of
       Some n \<Rightarrow> take n (c # cs) # number_matches (drop n (c # cs))
     | None \<Rightarrow> number_matches cs)"
  by pat_completeness auto
termination
  by (relation "measure length")
     (auto simp: number_at_def Let_def split: if_splits list.splits)

text \<open>
  \<open>/([a-zA-Z0-9._%+-]+@[a-zA-Z0-9.-]+\.[a-zA-Z]{2,})/\<close>, group 1. The local part is the
  maximal run of its class, followed by \<open>@\<close>. In the maximal run \<open>d\<close> of domain characters
  behind the \<open>@\<close>, the greedy domain part ends at the last dot, not at position 0, that two
  or more letters follow; the match ends with the run of letters behind that dot.
\<close>

definition is_local :: "char \<Rightarrow> bool" where
  "is_local c \<longleftrightarrow> is_alpha c \<or> is_digit c \<or> c \<in> set ''._%+-''"

definition is_domain :: "char \<Rightarrow> bool" where
  "is_domain c \<longleftrightarrow> is_alpha c \<or> is_digit c \<or> c \<in> set ''.-''"

definition domain_length :: "string \<Rightarrow> nat option" where
  "domain_length d =
    (case find (\<lambda>m. d ! m = CHR ''.'' \<and> 2 \<le> length (takeWhile is_alpha (drop (m + 1) d)))
            (rev [1 ..< length d]) of
       None \<Rightarrow> None
     | Some m \<Rightarrow> Some (m + 1 + length (takeWhile is_alpha (drop (m + 1) d))))"

definition email_at :: "string \<Rightarrow> string option" where
  "email_at s =
    (let local_part = takeWhile is_local s; rest = drop (length local_part) s
     in case rest of
          [] \<Rightarrow> None
        | c # behind \<Rightarrow>
            if local_part \<noteq> [] \<and> c = CHR ''@'' then
              (case domain_length (takeWhile is_domain behind) of
                 None \<Rightarrow> None
               | Some n \<Rightarrow> Some (take (length local_part + 1 + n) s))
            else None)"

subsection \<open>extractParameterFromString\<close>

text \<open>
  The source's \<open>switch (paramName)\<close>; \<open>None\<close> is its \<open>null\<close>. The third parameter,
  \<open>paramConfig\<close>, is unused there as well.
\<close>

definition extractParameterFromString ::
  "js_runtime \<Rightarrow> string \<Rightarrow> string \<Rightarrow> tool_parameter \<Rightarrow> js_value option"
where
  "extractParameterFromString rt input paramName paramConfig =
    (if paramName = ''city'' then
       (case leftmost city_at input of
          Some cityMatch \<Rightarrow> Some (JStr (trim cityMatch))
        | None \<Rightarrow>
           (case leftmost quoted_at input of
              Some quotedCityMatch \<Rightarrow> Some (JStr (trim quotedCityMatch))
            | None \<Rightarrow> None))
     else if paramName = ''operation'' then
       (case leftmost operation_at input of
          Some operationMatch \<Rightarrow> Some (JStr (toLowerCase operationMatch))
        | None \<Rightarrow> None)
     else if paramName = ''a'' \<or> paramName = ''b'' then
       (case number_matches input of
          [] \<Rightarrow> None
        | numberMatch \<Rightarrow>
           (let numbers = map (\<lambda>n. JNum (parseFloat rt n)) numberMatch
            in if paramName = ''a'' \<and> length numbers > 0 then Some (numbers ! 0)
               else if paramName = ''b'' \<and> length numbers > 1 then Some (numbers ! 1)
               else None))
     else if paramName = ''text'' then
       (case leftmost quoted_at input of
          Some textMatch \<Rightarrow> Some (JStr (trim textMatch))
        | None \<Rightarrow> None)
     else if paramName = ''email'' then
       (case leftmost email_at input of
          Some emailMatch \<Rightarrow> Some (JStr emailMatch)
        | None \<Rightarrow> None)
     else None)"

text \<open>The parameter names the switch has a case for.\<close>

definition extraction_table :: "string list" where
  "extraction_table = [''city'', ''operation'', ''a'', ''b'', ''text'', ''email'']"

subsection \<open>Properties of values\<close>

text \<open>
  The own properties of a value: those of an object, and the \<open>length\<close> and the indices
  of an array and of a string. An array index is a property name that is a whole number
  below \<open>2\<^sup>3\<^sup>2 - 1\<close>, written in decimal without leading zeros.
\<close>

definition array_index :: "string \<Rightarrow> nat option" where
  "array_index p =
    (if p \<noteq> [] \<and> list_all is_digit p \<and> (hd p \<noteq> CHR ''0'' \<or> p = ''0'')
        \<and> foldl (\<lambda>n c. 10 * n + (code c - 48)) 0 p < 4294967295
     then Some (foldl (\<lambda>n c. 10 * n + (code c - 48)) 0 p)
     else None)"

definition own_property :: "js_value \<Rightarrow> string \<Rightarrow> js_value option" where
  "own_property v p =
    (case v of
       JObj props \<Rightarrow> map_of props p
     | JDerived proto props \<Rightarrow> map_of props p
     | JArr xs \<Rightarrow>
         if p = ''length'' then Some (JNum (of_nat (length xs)))
         else (case array_index p of
                 Some i \<Rightarrow> if i < length xs then Some (xs ! i) else None
               | None \<Rightarrow> None)
     | JStr s \<Rightarrow>
         if p = ''length'' then Some (JNum (of_nat (length s)))
         else (case array_index p of
                 Some i \<Rightarrow> if i < length s then Some (JStr [s ! i]) else None
               | None \<Rightarrow> None)
     | _ \<Rightarrow> None)"

text \<open>
  The prototype of a value that is neither \<open>null\<close> nor \<open>undefined\<close>: the one it was given,
  or the library's prototype for its kind.
\<close>

definition standard_prototype :: "js_value \<Rightarrow> string" where
  "standard_prototype v =
    (case v of
       JArr _ \<Rightarrow> ''Array.prototype''
     | JStr _ \<Rightarrow> ''String.prototype''
     | JNum _ \<Rightarrow> ''Number.prototype''
     | JBool _ \<Rightarrow> ''Boolean.prototype''
     | _ \<Rightarrow> ''Object.prototype'')"

definition prototype_of :: "js_runtime \<Rightarrow> js_value \<Rightarrow> js_value" where
  "prototype_of rt v =
    (case v of
       JDerived proto props \<Rightarrow> proto
     | JBuiltin b \<Rightarrow> builtin_prototype rt b
     | _ \<Rightarrow> JBuiltin (standard_prototype v))"

text \<open>
  Reading the property \<open>p\<close> of the value \<open>r\<close>, the search having arrived at \<open>holder\<close> on
  the prototype chain of \<open>r\<close>: an own property of the holder is the answer, and otherwise
  the search goes on behind it. A chain that ends at \<open>null\<close> gives \<open>undefined\<close>. Where the
  chain enters the library, the name \<open>__proto__\<close> finds the accessor of
  \<open>Object.prototype\<close>, which answers with the prototype of \<open>r\<close>, and every other name is
  the library's to answer.
\<close>

fun chain_get :: "js_runtime \<Rightarrow> js_value \<Rightarrow> js_value \<Rightarrow> string \<Rightarrow> js_value" where
  "chain_get rt r (JDerived proto props) p =
    (case map_of props p of Some x \<Rightarrow> x | None \<Rightarrow> chain_get rt r proto p)"
| "chain_get rt r JNull p = JUndefined"
| "chain_get rt r JUndefined p = JUndefined"
| "chain_get rt r (JBuiltin b) p =
    (if p = ''__proto__'' then prototype_of rt r else builtin_get rt b p)"
| "chain_get rt r holder p =
    (case own_property holder p of
       Some x \<Rightarrow> x
     | None \<Rightarrow>
        if p = ''__proto__'' then prototype_of rt r
        else builtin_get rt (standard_prototype holder) p)"

text \<open>\<open>v[p]\<close>: on \<open>null\<close> and \<open>undefined\<close> the read throws a TypeError.\<close>

definition get_property :: "js_runtime \<Rightarrow> js_value \<Rightarrow> string \<Rightarrow> error + js_value" where
  "get_property rt v p = (if nullish v then Inl TypeError else Inr (chain_get rt v v p))"

text \<open>
  The own properties of an object after \<open>p\<close> has been set to \<open>v\<close>: an existing property
  keeps its place; a new one is enumerated among the array indices, which come first in
  ascending order, when its name is one, and last otherwise.
\<close>

fun insert_indexed ::
  "nat \<Rightarrow> string \<Rightarrow> js_value \<Rightarrow> (string \<times> js_value) list \<Rightarrow> (string \<times> js_value) list" where
  "insert_indexed i p v [] = [(p, v)]"
| "insert_indexed i p v ((q, w) # props) =
    (case array_index q of
       Some j \<Rightarrow> if j < i then (q, w) # insert_indexed i p v props else (p, v) # (q, w) # props
     | None \<Rightarrow> (p, v) # (q, w) # props)"

definition set_property :: "(string \<times> js_value) list \<Rightarrow> string \<Rightarrow> js_value \<Rightarrow> (string \<times> js_value) list" where
  "set_property props p v =
    (if p \<in> fst ` set props then map (\<lambda>(q, w). if q = p then (q, v) else (q, w)) props
     else (case array_index p of
             Some i \<Rightarrow> insert_indexed i p v props
           | None \<Rightarrow> props @ [(p, v)]))"

text \<open>
  \<open>obj[p] = v\<close> in strict code (the body of a class), on an ordinary object \<open>obj\<close>. An own
  property takes the new value. Otherwise the prototype chain decides: a property of an
  object on the chain that can be written, or no property at all, lets the assignment
  add an own property; the accessor \<open>__proto__\<close> of \<open>Object.prototype\<close> sets the prototype
  of \<open>obj\<close> to \<open>v\<close> when \<open>v\<close> is an object or \<open>null\<close> and does nothing otherwise, adding
  no property; and a property of the library that cannot be written refuses the
  assignment with a TypeError.
\<close>

datatype assignment = AddsProperty | SetsPrototype | Refused

fun assign_via :: "js_runtime \<Rightarrow> js_value \<Rightarrow> string \<Rightarrow> assignment" where
  "assign_via rt (JDerived proto props) p =
    (if p \<in> fst ` set props then AddsProperty else assign_via rt proto p)"
| "assign_via rt JNull p = AddsProperty"
| "assign_via rt JUndefined p = AddsProperty"
| "assign_via rt (JBuiltin b) p =
    (if p = ''__proto__'' then SetsPrototype
     else if builtin_readonly rt b p then Refused else AddsProperty)"
| "assign_via rt holder p =
    (if own_property holder p \<noteq> None then AddsProperty
     else if p = ''__proto__'' then SetsPrototype
     else if builtin_readonly rt (standard_prototype holder) p then Refused else AddsProperty)"

definition own_props :: "js_value \<Rightarrow> (string \<times> js_value) list" where
  "own_props obj = (case obj of JObj props \<Rightarrow> props | JDerived proto props \<Rightarrow> props | _ \<Rightarrow> [])"

definition with_props :: "js_value \<Rightarrow> (string \<times> js_value) list \<Rightarrow> js_value" where
  "with_props obj props = (case obj of JDerived proto _ \<Rightarrow> JDerived proto props | _ \<Rightarrow> JObj props)"

definition assign :: "js_runtime \<Rightarrow> js_value \<Rightarrow> string \<Rightarrow> js_value \<Rightarrow> error + js_value" where
  "assign rt obj p v =
    (if p \<in> fst ` set (own_props obj) then Inr (with_props obj (set_property (own_props obj) p v))
     else
       (case assign_via rt (prototype_of rt obj) p of
          AddsProperty \<Rightarrow> Inr (with_props obj (set_property (own_props obj) p v))
        | SetsPrototype \<Rightarrow>
            Inr (if (is_object v \<or> v = JNull) \<and> v \<noteq> prototype_of rt obj
                 then JDerived v (own_props obj) else obj)
        | Refused \<Rightarrow> Inl TypeError))"

text \<open>Truthiness, \<open>Object.values\<close> of a value that is neither \<open>null\<close> nor \<open>undefined\<close>, and \<open>typeof v === 'string'\<close>.\<close>

definition truthy :: "js_value \<Rightarrow> bool" where
  "truthy v =
    (case v of
       JUndefined \<Rightarrow> False
     | JNull \<Rightarrow> False
     | JBool b \<Rightarrow> b
     | JNum n \<Rightarrow> n \<noteq> 0
     | JStr s \<Rightarrow> s \<noteq> []
     | _ \<Rightarrow> True)"

definition object_values :: "js_value \<Rightarrow> js_value list" where
  "object_values v =
    (case v of
       JObj props \<Rightarrow> map snd props
     | JDerived proto props \<Rightarrow> map snd props
     | JArr xs \<Rightarrow> xs
     | JStr s \<Rightarrow> map (\<lambda>c. JStr [c]) s
     | _ \<Rightarrow> [])"

definition is_string :: "js_value \<Rightarrow> bool" where
  "is_string v = (case v of JStr _ \<Rightarrow> True | _ \<Rightarrow> False)"

subsection \<open>parseInput\<close>

text \<open>
  The loop over \<open>Object.entries(tool.parameters)\<close> in the \<open>try\<close> block, after \<open>JSON.parse\<close>
  has returned \<open>jsonInput\<close>. The state is \<open>extractedParams\<close> with \<open>hasExtractedParams\<close>; a
  \<open>throw\<close> ends the loop with \<open>Inl\<close>. The apostrophe around the name is code unit 39.
\<close>

fun json_parameters ::
  "js_runtime \<Rightarrow> string \<Rightarrow> js_value \<Rightarrow> (string \<times> tool_parameter) list
     \<Rightarrow> js_value \<times> bool \<Rightarrow> error + js_value \<times> bool"
where
  "json_parameters rt input jsonInput [] state = Inr state"
| "json_parameters rt input jsonInput ((paramName, paramConfig) # entries) (extractedParams, has) =
    (case get_property rt jsonInput paramName of
       Inl e \<Rightarrow> Inl e
     | Inr v \<Rightarrow>
        if v \<noteq> JUndefined then
          (case assign rt extractedParams paramName v of
             Inl e \<Rightarrow> Inl e
           | Inr extractedParams' \<Rightarrow> json_parameters rt input jsonInput entries (extractedParams', True))
        else if required paramConfig then
          (case extractParameterFromString rt input paramName paramConfig of
             Some extracted \<Rightarrow>
               (case assign rt extractedParams paramName extracted of
                  Inl e \<Rightarrow> Inl e
                | Inr extractedParams' \<Rightarrow>
                    json_parameters rt input jsonInput entries (extractedParams', True))
           | None \<Rightarrow>
               Inl (Error (''Required parameter '' @ [CHR 0x27] @ paramName @ [CHR 0x27]
                            @ '' not found in input'')))
        else json_parameters rt input jsonInput entries (extractedParams, has))"

text \<open>
  The loop in the \<open>catch\<close> block: every parameter is looked for in the raw text. The
  message quotes the input between double quotes (code unit 34).
\<close>

fun string_parameters ::
  "js_runtime \<Rightarrow> string \<Rightarrow> (string \<times> tool_parameter) list
     \<Rightarrow> js_value \<times> bool \<Rightarrow> error + js_value \<times> bool"
where
  "string_parameters rt input [] state = Inr state"
| "string_parameters rt input ((paramName, paramConfig) # entries) (extractedParams, has) =
    (case extractParameterFromString rt input paramName paramConfig of
       Some extracted \<Rightarrow>
         (case assign rt extractedParams paramName extracted of
            Inl e \<Rightarrow> Inl e
          | Inr extractedParams' \<Rightarrow> string_parameters rt input entries (extractedParams', True))
     | None \<Rightarrow>
         if required paramConfig then
           Inl (Error (''Required parameter '' @ [CHR 0x27] @ paramName @ [CHR 0x27]
                        @ '' not found in input: '' @ [CHR 0x22] @ input @ [CHR 0x22]))
         else string_parameters rt input entries (extractedParams, has))"

text \<open>
  The \<open>catch (parseError)\<close> block. It is entered when \<open>JSON.parse\<close> throws, and also when
  anything else in the \<open>try\<close> block throws; an error thrown here leaves \<open>parseInput\<close>.
\<close>

definition parseInput_catch :: "js_runtime \<Rightarrow> string \<Rightarrow> tool_metadata \<Rightarrow> error + js_value" where
  "parseInput_catch rt input tool =
    (case parameters tool of
       None \<Rightarrow> Inr (JStr input)
     | Some entries \<Rightarrow>
        (case string_parameters rt input entries (JObj [], False) of
           Inl e \<Rightarrow> Inl e
         | Inr (extractedParams, hasExtractedParams) \<Rightarrow>
             if hasExtractedParams then Inr extractedParams else Inr (JStr input)))"

text \<open>
  The \<open>try\<close> block behind a successful \<open>JSON.parse\<close>. The last step is
  \<open>jsonInput.input || Object.values(jsonInput).find((val) => typeof val === 'string') || input\<close>.
\<close>

definition parseInput_try :: "js_runtime \<Rightarrow> string \<Rightarrow> tool_metadata \<Rightarrow> js_value \<Rightarrow> error + js_value" where
  "parseInput_try rt input tool jsonInput =
    (case (case parameters tool of
             None \<Rightarrow> Inr (JObj [], False)
           | Some entries \<Rightarrow> json_parameters rt input jsonInput entries (JObj [], False)) of
       Inl e \<Rightarrow> Inl e
     | Inr (extractedParams, hasExtractedParams) \<Rightarrow>
         if hasExtractedParams then Inr extractedParams
         else
           (case get_property rt jsonInput ''input'' of
              Inl e \<Rightarrow> Inl e
            | Inr v \<Rightarrow>
                if truthy v then Inr v
                else (case find is_string (object_values jsonInput) of
                        Some w \<Rightarrow> if truthy w then Inr w else Inr (JStr input)
                      | None \<Rightarrow> Inr (JStr input))))"

definition parseInput :: "js_runtime \<Rightarrow> string \<Rightarrow> tool_metadata \<Rightarrow> error + js_value" where
  "parseInput rt input tool =
    (case JSON_parse rt input of
       None \<Rightarrow> parseInput_catch rt input tool
     | Some jsonInput \<Rightarrow>
        (case parseInput_try rt input tool jsonInput of
           Inr parsed \<Rightarrow> Inr parsed
         | Inl parseError \<Rightarrow> parseInput_catch rt input tool))"

subsection \<open>The named fields of a structured payload\<close>

text \<open>
  The properties of a parsed value that a schema names, as a map from parameter name to
  value: what reading each name on the value gives, where that is not \<open>undefined\<close>.
\<close>

definition named_fields ::
  "js_runtime \<Rightarrow> js_value \<Rightarrow> (string \<times> tool_parameter) list \<Rightarrow> string \<Rightarrow> js_value option" where
  "named_fields rt jsonInput entries q =
    (if q \<in> fst ` set entries \<and> chain_get rt jsonInput jsonInput q \<noteq> JUndefined
     then Some (chain_get rt jsonInput jsonInput q) else None)"

subsection \<open>createToolsFromMetadata\<close>

text \<open>
  \<open>String(result)\<close>. An array joins the conversions of its elements with commas, \<open>null\<close>
  and \<open>undefined\<close> elements giving the empty string; the first element whose conversion
  throws ends it. An ordinary object without an own property \<open>toString\<close> is converted by
  \<open>Object.prototype.toString\<close>; the conversion of the other objects is the runtime's.
\<close>

fun first_error :: "(error + 'a) list \<Rightarrow> error option" where
  "first_error [] = None"
| "first_error (Inl e # rs) = Some e"
| "first_error (Inr x # rs) = first_error rs"

fun js_String :: "js_runtime \<Rightarrow> js_value \<Rightarrow> error + string" where
  "js_String rt JUndefined = Inr ''undefined''"
| "js_String rt JNull = Inr ''null''"
| "js_String rt (JBool b) = Inr (if b then ''true'' else ''false'')"
| "js_String rt (JNum n) = Inr (number_toString rt n)"
| "js_String rt (JStr s) = Inr s"
| "js_String rt (JArr xs) =
    (let parts = map (\<lambda>x. if x = JUndefined \<or> x = JNull then Inr [] else js_String rt x) xs
     in case first_error parts of
          Some e \<Rightarrow> Inl e
        | None \<Rightarrow> Inr (js_join '','' (map (\<lambda>r. case r of Inr s \<Rightarrow> s | Inl e \<Rightarrow> []) parts)))"
| "js_String rt (JObj props) =
    (if ''toString'' \<in> fst ` set props then object_toString rt (JObj props)
     else Inr ''[object Object]'')"
| "js_String rt (JBuiltin b) = object_toString rt (JBuiltin b)"
| "js_String rt (JDerived proto props) = object_toString rt (JDerived proto props)"

text \<open>\<open>try { ... } catch (error) { ... }\<close>.\<close>

definition try_catch :: "error + 'a \<Rightarrow> (error \<Rightarrow> error + 'a) \<Rightarrow> error + 'a" where
  "try_catch body handler = (case body of Inl e \<Rightarrow> handler e | Inr v \<Rightarrow> Inr v)"

text \<open>
  A \<open>DynamicTool\<close>: name, description and the callable \<open>func\<close>, which resolves to a string
  or rejects with an error.
\<close>

record dynamic_tool =
  dt_name :: string
  dt_description :: string
  dt_func :: "string \<Rightarrow> error + string"

text \<open>
  The callable that \<open>createToolsFromMetadata\<close> gives to the \<open>DynamicTool\<close> of a tool. Its
  \<open>catch\<close> block reads \<open>error.message\<close>, for the logger and for the string it returns.
\<close>

definition tool_func :: "js_runtime \<Rightarrow> tool_metadata \<Rightarrow> string \<Rightarrow> error + string" where
  "tool_func rt tool input =
     try_catch
       (case parseInput rt input tool of
          Inl e \<Rightarrow> Inl e
        | Inr parsedInput \<Rightarrow>
           (case tool_method tool parsedInput of
              Inl e \<Rightarrow> Inl e
            | Inr result \<Rightarrow> js_String rt result))
       (\<lambda>error. case message_text error of
                  Inl thrown \<Rightarrow> Inl thrown
                | Inr m \<Rightarrow> Inr (''Error: '' @ m))"

definition createToolsFromMetadata :: "js_runtime \<Rightarrow> (string \<times> tool_metadata) list \<Rightarrow> dynamic_tool list" where
  "createToolsFromMetadata rt tools =
     map (\<lambda>(key, tool).
            \<lparr>dt_name = tool_name tool, dt_description = tool_description tool,
             dt_func = tool_func rt tool\<rparr>)
         tools"

section \<open>Registry (InMemoryAgentRepository)\<close>

text \<open>
  \<open>AgentConfig\<close> with the fields the pipeline reads, and the registry's two \<open>Map\<close>s. A
  \<open>Map\<close> iterates in insertion order, so it is a list of entries with distinct keys:
  \<open>set\<close> replaces the value of a key in place or adds the entry at the end.
\<close>

record agent_config =
  agent_name :: string
  agent_description :: string
  model :: "string option"
  systemPrompt :: "string option"

record agent_entry =
  metadata :: agent_config
  agent_instance :: nat

record repository =
  agents :: "(string \<times> agent_entry) list"
  tools :: "(string \<times> tool_metadata) list"

fun map_set :: "('k \<times> 'v) list \<Rightarrow> 'k \<Rightarrow> 'v \<Rightarrow> ('k \<times> 'v) list" where
  "map_set [] k v = [(k, v)]"
| "map_set ((k', v') # entries) k v =
    (if k' = k then (k', v) # entries else (k', v') # map_set entries k v)"

definition saveAgent :: "repository \<Rightarrow> string \<Rightarrow> agent_config \<Rightarrow> nat \<Rightarrow> repository" where
  "saveAgent repo name md inst =
     repo\<lparr>agents := map_set (agents repo) name \<lparr>metadata = md, agent_instance = inst\<rparr>\<rparr>"

definition getAgent :: "repository \<Rightarrow> string \<Rightarrow> agent_entry option" where
  "getAgent repo name = map_of (agents repo) name"

definition saveTool :: "repository \<Rightarrow> string \<Rightarrow> tool_metadata \<Rightarrow> repository" where
  "saveTool repo name tool = repo\<lparr>tools := map_set (tools repo) name tool\<rparr>"

definition getAllTools :: "repository \<Rightarrow> (string \<times> tool_metadata) list" where
  "getAllTools repo = tools repo"

section \<open>Agent service (AgentService)\<close>

text \<open>
  \<open>AgentContext\<close> and \<open>AgentResponse\<close>. The \<open>input\<close> of a context is declared a string;
  \<open>executeAgent\<close> tests it at run time, so the model takes any value. The metadata of a
  response is an object literal, kept as its list of properties.
\<close>

record agent_context =
  context_input :: js_value
  history :: "(string \<times> string) list option"
  sessionId :: "string option"

record agent_response =
  response_output :: string
  response_metadata :: "(string \<times> js_value) list"

subsection \<open>executeToolsDirectly\<close>

definition isRelevant :: "dynamic_tool \<Rightarrow> string \<Rightarrow> bool" where
  "isRelevant tool input =
    (let toolName = toLowerCase (dt_name tool);
         toolDescription = toLowerCase (dt_description tool);
         inputLower = toLowerCase input
     in js_includes inputLower toolName
        \<or> list_ex (\<lambda>word. js_includes inputLower word) (js_split CHR ''-'' toolName)
        \<or> list_ex (\<lambda>word. length word > 3 \<and> js_includes inputLower word)
              (js_split CHR '' '' toolDescription))"

definition fallback_apology :: string where
  "fallback_apology =
     ''I'' @ [CHR 0x27] @ ''m sorry, I couldn'' @ [CHR 0x27]
       @ ''t process your request properly. Please try rephrasing your question.''"

text \<open>
  The loop over the tools. The body of the \<open>try\<close> either returns from the function
  (\<open>Some\<close>) or falls through to the next tool (\<open>None\<close>); the \<open>catch\<close> logs and falls through.
  \<open>input.toLowerCase()\<close> throws a TypeError on a value that is no string.
\<close>

fun executeToolsDirectly :: "dynamic_tool list \<Rightarrow> js_value \<Rightarrow> string" where
  "executeToolsDirectly [] input = fallback_apology"
| "executeToolsDirectly (tool # rest) input =
    (case try_catch
            (case input of
               JStr s \<Rightarrow>
                 if isRelevant tool s then
                   (case dt_func tool s of
                      Inl e \<Rightarrow> Inl e
                    | Inr result \<Rightarrow>
                        Inr (Some (''Based on the '' @ dt_name tool @ '' information: '' @ result)))
                 else Inr None
             | _ \<Rightarrow> Inl TypeError)
            (\<lambda>error. Inr None) of
       Inr (Some answer) \<Rightarrow> answer
     | _ \<Rightarrow> executeToolsDirectly rest input)"

subsection \<open>Relevance and skipped tools, in the words of the contract\<close>

text \<open>
  A text appears in another when it is one of its substrings. The scan passes over a tool
  that is not relevant to the input, and over one whose invocation throws.
\<close>

definition is_substring :: "string \<Rightarrow> string \<Rightarrow> bool" where
  "is_substring sub s \<longleftrightarrow> (\<exists>before after. s = before @ sub @ after)"

definition skipped :: "dynamic_tool \<Rightarrow> string \<Rightarrow> bool" where
  "skipped tool input \<longleftrightarrow> \<not> isRelevant tool input \<or> (\<exists>e. dt_func tool input = Inl e)"

subsection \<open>executeAgentInternal\<close>

text \<open>
  The events of the service. \<open>AgentEventSubject\<close> reads \<open>error.message\<close> for the data of
  the error event, which is any value.
\<close>

datatype agent_event =
    AgentRegistered string
  | AgentExecuted string agent_context agent_response
  | AgentErrored string js_value
  | ToolRegistered string

text \<open>
  What the service is given and calls: the injected tool creation strategy, the factory's
  \<open>createLLM\<close>, \<open>createAgentExecutor\<close> (LangChain's \<open>createOpenAIFunctionsAgent\<close> and
  \<open>AgentExecutor\<close>), and the observers of its events. Each may throw. The executor is its
  \<open>invoke\<close>: from \<open>input\<close> and \<open>chat_history\<close> to the \<open>output\<close> of the result (\<open>None\<close>
  when the result has none), or to the error it throws. \<open>notifyObservers\<close> hands an event
  to the registered observers in turn: \<open>Some\<close> is what the first failing observer
  throws.
\<close>

type_synonym agent_executor = "js_value \<Rightarrow> (string \<times> string) list \<Rightarrow> error + string option"

record 'llm agent_env =
  toolCreationStrategy :: "(string \<times> tool_metadata) list \<Rightarrow> error + dynamic_tool list"
  createLLM :: "agent_config \<Rightarrow> error + 'llm"
  createAgentExecutor :: "'llm \<Rightarrow> dynamic_tool list \<Rightarrow> string \<Rightarrow> error + agent_executor"
  notifyObservers :: "agent_event \<Rightarrow> error option"

text \<open>The strategy the module binds by default, \<open>DefaultToolCreationStrategy\<close>.\<close>

definition default_strategy ::
  "js_runtime \<Rightarrow> (string \<times> tool_metadata) list \<Rightarrow> error + dynamic_tool list" where
  "default_strategy rt tls = Inr (createToolsFromMetadata rt tls)"

text \<open>\<open>AgentFactory.createSystemPrompt\<close>; the lines of the default prompt are joined by line feeds.\<close>

definition default_system_prompt :: string where
  "default_system_prompt =
     js_join [CHR 0x0A]
       [''You are an intelligent assistant with access to various tools and skills.'',
        [],
        ''Your capabilities include:'',
        ''- Mathematical calculations'',
        ''- Weather information retrieval'',
        ''- Date formatting and manipulation'',
        ''- Email validation'',
        ''- Password generation'',
        ''- Sentiment analysis'',
        ''- Text summarization'',
        ''- Currency conversion'',
        [],
        ''Please use the appropriate tools when needed to provide accurate and helpful responses.'']"

definition createSystemPrompt :: "agent_config \<Rightarrow> string" where
  "createSystemPrompt config =
    (case systemPrompt config of
       Some p \<Rightarrow> if p \<noteq> [] then p else default_system_prompt
     | None \<Rightarrow> default_system_prompt)"

definition max_iterations_sentinel :: string where
  "max_iterations_sentinel = ''Agent stopped due to max iterations.''"

definition error_apology :: string where
  "error_apology = ''I encountered an error while processing your request: ''"

text \<open>
  The tools of an agent: the entries of the registry whose owning instance is the agent's
  instance, in the registry's order. And the metadata every response of the function
  carries: the agent's name, the names of its tools and the names of the adapters.
\<close>

definition agent_tools :: "repository \<Rightarrow> agent_entry \<Rightarrow> (string \<times> tool_metadata) list" where
  "agent_tools repo agent =
     filter (\<lambda>(name, tool). owner_instance tool = agent_instance agent) (getAllTools repo)"

definition base_metadata ::
  "string \<Rightarrow> (string \<times> tool_metadata) list \<Rightarrow> dynamic_tool list \<Rightarrow> (string \<times> js_value) list" where
  "base_metadata agentName agentTools tls =
     [(''agentName'', JStr agentName),
      (''tools'', JArr (map (\<lambda>(name, tool). JStr name) agentTools)),
      (''availableTools'', JArr (map (\<lambda>t. JStr (dt_name t)) tls))]"

text \<open>
  The \<open>try\<close> block of \<open>executeAgentInternal\<close> with its \<open>catch\<close>: the invocation of the
  executor, the answer on a usable output, the fallback on an empty output or on the
  sentinel of the iteration bound, and the degraded answer on an error. The \<open>catch\<close>
  block reads \<open>error.message\<close>, for the performance log, for the output and for the
  metadata.
\<close>

definition invoke_guarded ::
  "agent_executor \<Rightarrow> string \<Rightarrow> (string \<times> tool_metadata) list \<Rightarrow> dynamic_tool list
     \<Rightarrow> agent_context \<Rightarrow> error + agent_response"
where
  "invoke_guarded agentExecutor agentName agentTools tls context =
     try_catch
       (case agentExecutor (context_input context)
               (case history context of Some h \<Rightarrow> h | None \<Rightarrow> []) of
          Inl e \<Rightarrow> Inl e
        | Inr result \<Rightarrow>
           (case result of
              Some out \<Rightarrow>
                if out \<noteq> [] \<and> out \<noteq> max_iterations_sentinel then
                  Inr \<lparr>response_output = out,
                       response_metadata = base_metadata agentName agentTools tls\<rparr>
                else
                  Inr \<lparr>response_output = executeToolsDirectly tls (context_input context),
                       response_metadata =
                         base_metadata agentName agentTools tls @ [(''fallbackUsed'', JBool True)]\<rparr>
            | None \<Rightarrow>
                Inr \<lparr>response_output = executeToolsDirectly tls (context_input context),
                     response_metadata =
                       base_metadata agentName agentTools tls @ [(''fallbackUsed'', JBool True)]\<rparr>))
       (\<lambda>error.
          case message error of
            Inl thrown \<Rightarrow> Inl thrown
          | Inr m \<Rightarrow>
             (case message_text error of
                Inl thrown \<Rightarrow> Inl thrown
              | Inr text \<Rightarrow>
                  Inr \<lparr>response_output = error_apology @ text,
                       response_metadata =
                         base_metadata agentName agentTools tls @ [(''error'', m)]\<rparr>))"

text \<open>
  \<open>executeAgentInternal\<close>. Destructuring the agent throws a TypeError when the registry
  has no such agent. The statements before the \<open>try\<close> (the tools, the model, the
  executor) are not guarded: what they throw leaves the function.
\<close>

definition executeAgentInternal ::
  "'llm agent_env \<Rightarrow> repository \<Rightarrow> string \<Rightarrow> agent_context \<Rightarrow> error + agent_response"
where
  "executeAgentInternal env repo agentName context =
    (case getAgent repo agentName of
       None \<Rightarrow> Inl TypeError
     | Some agent \<Rightarrow>
        (case toolCreationStrategy env (agent_tools repo agent) of
           Inl e \<Rightarrow> Inl e
         | Inr tls \<Rightarrow>
            (case createLLM env (metadata agent) of
               Inl e \<Rightarrow> Inl e
             | Inr llm \<Rightarrow>
                (case createAgentExecutor env llm tls (createSystemPrompt (metadata agent)) of
                   Inl e \<Rightarrow> Inl e
                 | Inr agentExecutor \<Rightarrow>
                     invoke_guarded agentExecutor agentName (agent_tools repo agent) tls context))))"

subsection \<open>executeAgent\<close>

text \<open>
  The state of the service: the registry and the events handed to the observers so far.
\<close>

record service_state =
  registry :: repository
  emitted :: "agent_event list"

text \<open>
  The \<open>catch\<close> block of \<open>executeAgent\<close>: \<open>emitAgentError\<close> reads \<open>error.message\<close> and
  notifies the observers, the error is logged, and it is thrown again. What the read or
  an observer throws leaves the function in its place.
\<close>

definition executeAgent_catch ::
  "'llm agent_env \<Rightarrow> service_state \<Rightarrow> string \<Rightarrow> error \<Rightarrow> (error + agent_response) \<times> service_state"
where
  "executeAgent_catch env st agentName error =
    (case message error of
       Inl thrown \<Rightarrow> (Inl thrown, st)
     | Inr m \<Rightarrow>
        (case notifyObservers env (AgentErrored agentName m) of
           Some thrown \<Rightarrow> (Inl thrown, st\<lparr>emitted := emitted st @ [AgentErrored agentName m]\<rparr>)
         | None \<Rightarrow> (Inl error, st\<lparr>emitted := emitted st @ [AgentErrored agentName m]\<rparr>)))"

text \<open>
  \<open>executeAgent(agentName, context)\<close>; an absent context is \<open>None\<close>. The three tests stand
  before the \<open>try\<close>; inside it the command runs \<open>executeAgentInternal\<close> and the observers
  are told of the response.
\<close>

definition executeAgent ::
  "'llm agent_env \<Rightarrow> service_state \<Rightarrow> string \<Rightarrow> agent_context option
     \<Rightarrow> (error + agent_response) \<times> service_state"
where
  "executeAgent env st agentName context_opt =
    (case context_opt of
       None \<Rightarrow> (Inl (Error ''Context is required for agent execution''), st)
     | Some context \<Rightarrow>
        if \<not> (case context_input context of JStr s \<Rightarrow> s \<noteq> [] | _ \<Rightarrow> False) then
          (Inl (Error ''Valid input string is required for agent execution''), st)
        else
          (case getAgent (registry st) agentName of
             None \<Rightarrow> (Inl (Error (''Agent '' @ agentName @ '' not found'')), st)
           | Some agent \<Rightarrow>
              (case executeAgentInternal env (registry st) agentName context of
                 Inr response \<Rightarrow>
                   (case notifyObservers env (AgentExecuted agentName context response) of
                      None \<Rightarrow>
                        (Inr response,
                         st\<lparr>emitted := emitted st @ [AgentExecuted agentName context response]\<rparr>)
                    | Some thrown \<Rightarrow>
                        executeAgent_catch env
                          (st\<lparr>emitted := emitted st @ [AgentExecuted agentName context response]\<rparr>)
                          agentName thrown)
               | Inl error \<Rightarrow> executeAgent_catch env st agentName error)))"

section \<open>Middleware Pipeline (BaseAgentProvider.execute)\<close>

text \<open>
  An agent provider: its name and its two optional hooks. A hook is a function of its
  arguments: it returns its result or throws. \<open>'m\<close> is the agent metadata that the
  reflector hands to the hooks.
\<close>

record 'm agent_provider =
  agentName :: string
  beforeModelCall :: "(agent_context \<Rightarrow> 'm \<Rightarrow> error + agent_context) option"
  afterModelCall :: "(agent_context \<Rightarrow> agent_response \<Rightarrow> 'm \<Rightarrow> error + agent_response) option"

text \<open>
  The context that goes to the core execution (the source's \<open>processedContext\<close>) and the
  response that is returned (its \<open>finalResult\<close>): a hook that is absent changes nothing,
  and one that throws is logged and its argument kept. The logger reads the thrown value
  only when it is truthy. The after hook receives the original context.
\<close>

definition processedContext :: "'m agent_provider \<Rightarrow> 'm \<Rightarrow> agent_context \<Rightarrow> agent_context" where
  "processedContext provider md context =
    (case beforeModelCall provider of
       None \<Rightarrow> context
     | Some before \<Rightarrow> (case before context md of Inr c \<Rightarrow> c | Inl error \<Rightarrow> context))"

definition finalResult ::
  "'m agent_provider \<Rightarrow> 'm \<Rightarrow> agent_context \<Rightarrow> agent_response \<Rightarrow> agent_response" where
  "finalResult provider md context result =
    (case afterModelCall provider of
       None \<Rightarrow> result
     | Some after \<Rightarrow> (case after context result md of Inr r \<Rightarrow> r | Inl error \<Rightarrow> result))"

text \<open>
  \<open>execute(context)\<close>. \<open>core\<close> is \<open>agentService.executeAgent\<close>. The last statement of the
  \<open>try\<close> block logs \<open>context.input.length\<close> of the original context, a property read
  that throws when that input is \<open>null\<close> or \<open>undefined\<close>. The \<open>catch\<close> block logs the
  error, reads \<open>error.message\<close> for the performance log, and throws the error again.
\<close>

definition execute ::
  "'m agent_provider \<Rightarrow> 'm \<Rightarrow> (string \<Rightarrow> agent_context option \<Rightarrow> error + agent_response)
     \<Rightarrow> agent_context option \<Rightarrow> error + agent_response"
where
  "execute provider md core context_opt =
    (case context_opt of
       None \<Rightarrow> Inl (Error ''Context is required for agent execution'')
     | Some context \<Rightarrow>
        try_catch
          (case core (agentName provider) (Some (processedContext provider md context)) of
             Inl e \<Rightarrow> Inl e
           | Inr result \<Rightarrow>
              if nullish (context_input context) then Inl TypeError
              else Inr (finalResult provider md context result))
          (\<lambda>error. case message error of Inl thrown \<Rightarrow> Inl thrown | Inr m \<Rightarrow> Inl error))"

section \<open>Sample data for the examples\<close>

text \<open>
  The security configuration of the module's documentation, and one with the request
  limit left open.
\<close>

definition example_guard :: security_config where
  "example_guard =
     \<lparr>rateLimit_cfg = Some \<lparr>maxRequests = 100, windowMs = 60\<rparr>, maxInputLength = Some 10000,
      allowedDomains = Some [''api.openai.com'', ''api.anthropic.com''], sanitizeInput_cfg = True\<rparr>"

definition example_limits :: "js_number \<Rightarrow> security_config" where
  "example_limits m = \<lparr>rateLimit_cfg = Some \<lparr>maxRequests = m, windowMs = 60\<rparr>, maxInputLength = Some 10000,
     allowedDomains = None, sanitizeInput_cfg = True\<rparr>"


text \<open>
  A runtime for the examples. It answers for the texts the examples use: the graph of
  \<open>JSON.parse\<close> and of \<open>new URL(url).hostname\<close> on them, and nothing else parses. Of the
  library it knows the constructor and the method \<open>toString\<close> that every object inherits,
  the chain of the prototypes, and the \<open>length\<close> of \<open>String.prototype\<close>, which cannot be
  written.
\<close>

definition sample_runtime :: js_runtime where
  "sample_runtime =
    \<lparr>JSON_parse = map_of [(''{\"units\": \"metric\"}'', JObj [(''units'', JStr ''metric'')]),
                         (''\"hello\"'', JStr ''hello'')],
     parseFloat = (\<lambda>text. 0),
     number_toString = (\<lambda>n. ''0''),
     URL_hostname = map_of [(''http://e.t/x'', ''e.t''),
                            (''https://api.openai.com/v1'', ''api.openai.com'')],
     builtin_get =
       (\<lambda>b p. if b = ''Object.prototype'' \<and> p = ''constructor'' then JBuiltin ''Object''
              else if b = ''Object.prototype'' \<and> p = ''toString''
                then JBuiltin ''Object.prototype.toString''
              else JUndefined),
     builtin_prototype =
       (\<lambda>b. if b = ''Object.prototype'' then JNull else JBuiltin ''Object.prototype''),
     builtin_readonly = (\<lambda>b p. b = ''String.prototype'' \<and> p = ''length''),
     object_toString = (\<lambda>v. Inl TypeError)\<rparr>"

text \<open>
  A tool with one required parameter, \<open>units\<close>, for which \<open>extractParameterFromString\<close>
  has no case. Its method answers with the chosen units.
\<close>

definition units_tool :: tool_metadata where
  "units_tool =
    \<lparr>tool_name = ''set-units'',
     tool_description = ''Choose metric or imperial units'',
     parameters = Some [(''units'', \<lparr>param_type = ''string'', param_description = ''The unit system'',
                                      param_enum = Some [''metric'', ''imperial''], required = True\<rparr>)],
     methodName = ''setUnits'',
     owner_instance = 7,
     tool_method =
       (\<lambda>args. case get_property sample_runtime args ''units'' of
                 Inr (JStr u) \<Rightarrow> Inr (JStr (''Units set to '' @ u))
               | _ \<Rightarrow> Inl (Error ''units must be a string''))\<rparr>"

text \<open>
  A tool whose method rejects without a reason, as \<open>Promise.reject()\<close> does; it declares
  no parameters. And a tool with one required parameter named \<open>length\<close> (the example
  module's password generator has a parameter of that name), for which
  \<open>extractParameterFromString\<close> has no case either.
\<close>

definition rejecting_tool :: tool_metadata where
  "rejecting_tool =
    \<lparr>tool_name = ''ping'',
     tool_description = ''Ask the service whether it is up'',
     parameters = None,
     methodName = ''ping'',
     owner_instance = 7,
     tool_method = (\<lambda>args. Inl (Thrown PUndefined))\<rparr>"

definition password_tool :: tool_metadata where
  "password_tool =
    \<lparr>tool_name = ''generate-password'',
     tool_description = ''Generate secure passwords'',
     parameters = Some [(''length'', \<lparr>param_type = ''number'', param_description = ''Password length'',
                                       param_enum = None, required = True\<rparr>)],
     methodName = ''generatePassword'',
     owner_instance = 7,
     tool_method =
       (\<lambda>args. case get_property sample_runtime args ''length'' of
                 Inr (JNum n) \<Rightarrow> Inr (JStr ''a new password'')
               | _ \<Rightarrow> Inl (Error ''length must be a number''))\<rparr>"

text \<open>
  Two adapters for the examples of the fallback scan: the first one's invocation throws,
  the second answers.
\<close>

definition sample_tools :: "dynamic_tool list" where
  "sample_tools =
    [\<lparr>dt_name = ''get-weather'', dt_description = ''Get current weather for a city'',
      dt_func = (\<lambda>input. Inl (Error ''weather service unavailable''))\<rparr>,
     \<lparr>dt_name = ''calculator'', dt_description = ''Perform basic mathematical calculations'',
      dt_func = (\<lambda>input. Inr ''4'')\<rparr>]"

text \<open>
  A registry with one agent, which owns the tool \<open>units_tool\<close>; collaborators that all
  succeed, with an executor that answers \<open>Done.\<close>; and a request.
\<close>

definition sample_agent :: agent_config where
  "sample_agent =
     \<lparr>agent_name = ''units-agent'', agent_description = ''Keeps the unit system'',
      model = Some ''gpt-3.5-turbo'', systemPrompt = None\<rparr>"

definition sample_state :: service_state where
  "sample_state =
     \<lparr>registry = saveTool (saveAgent \<lparr>agents = [], tools = []\<rparr> ''units-agent'' sample_agent 7)
                    ''set-units'' units_tool,
      emitted = []\<rparr>"

definition sample_env :: "unit agent_env" where
  "sample_env =
     \<lparr>toolCreationStrategy = default_strategy sample_runtime,
      createLLM = (\<lambda>config. Inr ()),
      createAgentExecutor = (\<lambda>llm tls prompt. Inr (\<lambda>input chat_history. Inr (Some ''Done.''))),
      notifyObservers = (\<lambda>event. None)\<rparr>"

definition sample_request :: agent_context where
  "sample_request = \<lparr>context_input = JStr ''use metric'', history = None, sessionId = None\<rparr>"

text \<open>
  Collaborators that fail: an executor whose invocation throws, one whose invocation
  rejects without a reason, a factory that cannot create the model, and a strategy that
  cannot build the adapters.
\<close>

definition rejecting_env :: "unit agent_env" where
  "rejecting_env = sample_env\<lparr>createAgentExecutor :=
      (\<lambda>llm tls prompt. Inr (\<lambda>input chat_history. Inl (Thrown PUndefined)))\<rparr>"

definition timeout_env :: "unit agent_env" where
  "timeout_env = sample_env\<lparr>createAgentExecutor :=
      (\<lambda>llm tls prompt. Inr (\<lambda>input chat_history. Inl (Error ''model timed out'')))\<rparr>"

definition no_provider_env :: "unit agent_env" where
  "no_provider_env = sample_env\<lparr>createLLM := (\<lambda>config. Inl (Error ''Unsupported AI provider type: none''))\<rparr>"

definition failing_strategy_env :: "unit agent_env" where
  "failing_strategy_env = sample_env\<lparr>toolCreationStrategy := (\<lambda>tls. Inl (Error ''cannot build tools''))\<rparr>"

text \<open>
  The sample service as the core of the middleware pipeline, its answer to the sample
  request, and a provider whose hooks both throw.
\<close>

definition failing_hooks :: "unit agent_provider" where
  "failing_hooks =
     \<lparr>agentName = ''units-agent'',
      beforeModelCall = Some (\<lambda>context md. Inl (Error ''before failed'')),
      afterModelCall = Some (\<lambda>context response md. Inl (Error ''after failed''))\<rparr>"

definition sample_core :: "string \<Rightarrow> agent_context option \<Rightarrow> error + agent_response" where
  "sample_core name context = fst (executeAgent sample_env sample_state name context)"

definition sample_response :: agent_response where
  "sample_response =
     \<lparr>response_output = ''Done.'',
      response_metadata =
        [(''agentName'', JStr ''units-agent''), (''tools'', JArr [JStr ''set-units'']),
         (''availableTools'', JArr [JStr ''set-units''])]\<rparr>"


section \<open>Properties of the Rate Limiter\<close>

lemma rateLimit_new_window:
  assumes "rateLimit_cfg cfg = Some rl"
    and "store key = None \<or> (\<exists>e. store key = Some e \<and> resetTime e \<le> now)"
  shows "rateLimit cfg store key now =
           (\<lparr>allowed = True, remaining = maxRequests rl - 1, res_resetTime = now + windowMs rl * 1000\<rparr>,
            store(key \<mapsto> \<lparr>count = 1, resetTime = now + windowMs rl * 1000\<rparr>))"
  using assms by (auto simp: rateLimit_def Let_def split: option.splits)

lemma rateLimit_other_key:
  "key' \<noteq> key \<Longrightarrow> snd (rateLimit cfg store key' now) key = store key"
  by (auto simp: rateLimit_def Let_def split: option.splits)

lemma rateLimit_in_window:
  assumes "rateLimit_cfg cfg = Some rl" "store key = Some e" "now < resetTime e"
  shows "rateLimit cfg store key now =
    (if count e \<ge> maxRequests rl
     then (\<lparr>allowed = False, remaining = 0, res_resetTime = resetTime e\<rparr>, store)
     else (\<lparr>allowed = True, remaining = maxRequests rl - (count e + 1), res_resetTime = resetTime e\<rparr>,
           store(key \<mapsto> e\<lparr>count := count e + 1\<rparr>)))"
  using assms by (simp add: rateLimit_def Let_def)

text \<open>
  Inside a window the stored count is a whole number \<open>c\<close>, and the test
  \<open>count >= maxRequests\<close> reads \<open>\<lceil>maxRequests\<rceil> \<le> c\<close>: the checks of a key are admitted
  until the count reaches the limit rounded up.
\<close>

lemma calls_in_window:
  assumes cfg: "rateLimit_cfg cfg = Some rl"
  shows "store key = Some e \<Longrightarrow> count e = of_int c \<Longrightarrow> c \<le> \<lceil>maxRequests rl\<rceil> \<Longrightarrow>
     \<forall>p \<in> set reqs. fst p = key \<longrightarrow> snd p < resetTime e \<Longrightarrow>
     rateLimit_calls cfg store reqs = (out, store') \<Longrightarrow>
     map allowed (results_for key out)
        = map (\<lambda>i. c + int i < \<lceil>maxRequests rl\<rceil>) [0 ..< length (results_for key out)]
     \<and> (\<forall>r \<in> set (results_for key out). \<not> allowed r \<longrightarrow> remaining r = 0)
     \<and> (\<exists>e'. store' key = Some e' \<and> resetTime e' = resetTime e
             \<and> count e' = of_int (min \<lceil>maxRequests rl\<rceil> (c + int (length (results_for key out))))
             \<and> int (length (filter allowed (results_for key out)))
                 = min \<lceil>maxRequests rl\<rceil> (c + int (length (results_for key out))) - c)"
proof (induction reqs arbitrary: store e c out store')
  case Nil
  then show ?case by (simp add: results_for_def)
next
  case (Cons a reqs)
  let ?M = "\<lceil>maxRequests rl\<rceil>"
  obtain k t where a: "a = (k, t)" by (cases a)
  obtain r st1 where st: "rateLimit cfg store k t = (r, st1)" by (cases "rateLimit cfg store k t")
  obtain rs st2 where rest: "rateLimit_calls cfg st1 reqs = (rs, st2)"
    by (cases "rateLimit_calls cfg st1 reqs")
  have out: "out = (k, r) # rs" and st': "store' = st2"
    using Cons.prems(5) a st rest by simp_all
  have inw: "\<forall>p \<in> set reqs. fst p = key \<longrightarrow> snd p < resetTime e"
    using Cons.prems(4) by simp
  have full_iff: "maxRequests rl \<le> count e \<longleftrightarrow> ?M \<le> c"
    unfolding Cons.prems(2) by (simp add: ceiling_le_iff)
  show ?case
  proof (cases "k = key")
    case False
    have "st1 key = Some e" using rateLimit_other_key[OF False, of cfg store t] st Cons.prems(1) by simp
    from Cons.IH[of st1 e c rs st2] this Cons.prems(2,3) inw rest False show ?thesis
      unfolding out st' by (simp add: results_for_def)
  next
    case True
    have t: "t < resetTime e" using Cons.prems(4) a True by simp
    have step: "rateLimit cfg store key t =
    (if ?M \<le> c
     then (\<lparr>allowed = False, remaining = 0, res_resetTime = resetTime e\<rparr>, store)
     else (\<lparr>allowed = True, remaining = maxRequests rl - (count e + 1), res_resetTime = resetTime e\<rparr>,
           store(key \<mapsto> e\<lparr>count := count e + 1\<rparr>)))"
      using rateLimit_in_window[of cfg rl store key e t] cfg Cons.prems(1) t full_iff by simp
    have rf: "results_for key out = r # results_for key rs"
      unfolding out using True by (simp add: results_for_def)
    show ?thesis
    proof (cases "?M \<le> c")
      case full: True
      then have r: "r = \<lparr>allowed = False, remaining = 0, res_resetTime = resetTime e\<rparr>" and s1: "st1 = store"
        using step st True by simp_all
      have ce: "c = ?M" using full Cons.prems(3) by simp
      have "st1 key = Some e" using s1 Cons.prems(1) by simp
      from Cons.IH[OF this Cons.prems(2,3) inw rest]
      have IH: "map allowed (results_for key rs)
        = map (\<lambda>i. c + int i < ?M) [0 ..< length (results_for key rs)]
     \<and> (\<forall>r \<in> set (results_for key rs). \<not> allowed r \<longrightarrow> remaining r = 0)
     \<and> (\<exists>e'. st2 key = Some e' \<and> resetTime e' = resetTime e
             \<and> count e' = of_int (min ?M (c + int (length (results_for key rs))))
             \<and> int (length (filter allowed (results_for key rs)))
                 = min ?M (c + int (length (results_for key rs))) - c)" .
      show ?thesis unfolding rf st' using IH r ce
        by (auto simp: map_upt_Suc simp del: upt_Suc)
    next
      case notfull: False
      let ?e1 = "e\<lparr>count := count e + 1\<rparr>"
      have r: "r = \<lparr>allowed = True, remaining = maxRequests rl - (count e + 1), res_resetTime = resetTime e\<rparr>"
        and s1: "st1 = store(key \<mapsto> ?e1)"
        using step st True notfull by simp_all
      have k1: "st1 key = Some ?e1" using s1 by simp
      have c1: "count ?e1 = of_int (c + 1)" using Cons.prems(2) by simp
      have b1: "c + 1 \<le> ?M" using notfull by simp
      have w1: "\<forall>p \<in> set reqs. fst p = key \<longrightarrow> snd p < resetTime ?e1" using inw by simp
      from Cons.IH[OF k1 c1 b1 w1 rest]
      have IH: "map allowed (results_for key rs)
        = map (\<lambda>i. c + 1 + int i < ?M) [0 ..< length (results_for key rs)]
     \<and> (\<forall>r \<in> set (results_for key rs). \<not> allowed r \<longrightarrow> remaining r = 0)
     \<and> (\<exists>e'. st2 key = Some e' \<and> resetTime e' = resetTime ?e1
             \<and> count e' = of_int (min ?M (c + 1 + int (length (results_for key rs))))
             \<and> int (length (filter allowed (results_for key rs)))
                 = min ?M (c + 1 + int (length (results_for key rs))) - (c + 1))" .
      show ?thesis unfolding rf st' using IH r notfull
        by (auto simp: map_upt_Suc add.assoc add.commute add.left_commute simp del: upt_Suc)
    qed
  qed
qed

lemma example_run:
  "rateLimit_calls (example_limits 2) Map.empty [(''ip-1'', 0), (''ip-1'', 10), (''ip-2'', 20), (''ip-1'', 59999)]
     = ([(''ip-1'', \<lparr>allowed = True, remaining = 1, res_resetTime = 60000\<rparr>),
         (''ip-1'', \<lparr>allowed = True, remaining = 0, res_resetTime = 60000\<rparr>),
         (''ip-2'', \<lparr>allowed = True, remaining = 1, res_resetTime = 60020\<rparr>),
         (''ip-1'', \<lparr>allowed = False, remaining = 0, res_resetTime = 60000\<rparr>)],
        [''ip-1'' \<mapsto> \<lparr>count = 2, resetTime = 60000\<rparr>, ''ip-2'' \<mapsto> \<lparr>count = 1, resetTime = 60020\<rparr>])"
  by (simp add: example_limits_def rateLimit_def Let_def)


text \<open>
  Claim C1, as amended. With rate limiting configured and \<open>maxRequests\<close> a whole number
  that is at least 1: let a key's window be opened by a check at time \<open>t0\<close> (the key has
  no entry, or its stored window has elapsed), and let every later check for that key
  arrive before the window's reset time \<open>t0 + windowMs * 1000\<close>, interleaved at will with
  checks for other keys. Then at most \<open>maxRequests\<close> checks of the key are admitted, the
  stored count never exceeds \<open>maxRequests\<close>, and every check from number \<open>maxRequests + 1\<close>
  on is denied with \<open>remaining = 0\<close>.

  The theorem states this for every positive limit, whole or not: the key's \<open>i\<close>-th check
  (counting from 0) is allowed exactly when \<open>i < maxRequests\<close>, every denied check reports
  \<open>remaining = 0\<close>, and after \<open>n\<close> checks the number of admitted checks and the stored
  count are both \<open>min \<lceil>maxRequests\<rceil> n\<close>. For a whole limit that is at most
  \<open>maxRequests\<close>; for a limit that is not whole it is the limit rounded up.
\<close>

theorem rateLimit_window_bound:
  assumes cfg: "rateLimit_cfg cfg = Some rl"
    and pos: "0 < maxRequests rl"
    and fresh: "store key = None \<or> (\<exists>e. store key = Some e \<and> resetTime e \<le> t0)"
    and inw: "\<forall>p \<in> set reqs. fst p = key \<longrightarrow> snd p < t0 + windowMs rl * 1000"
    and run: "rateLimit_calls cfg store ((key, t0) # reqs) = (out, store')"
  shows "(\<forall>i < length (results_for key out).
            (allowed (results_for key out ! i) \<longleftrightarrow> real i < maxRequests rl)
          \<and> (\<not> allowed (results_for key out ! i) \<longrightarrow> remaining (results_for key out ! i) = 0))
       \<and> int (length (filter allowed (results_for key out)))
            = min \<lceil>maxRequests rl\<rceil> (int (length (results_for key out)))
       \<and> (\<exists>e. store' key = Some e \<and> resetTime e = t0 + windowMs rl * 1000
               \<and> count e = of_int (min \<lceil>maxRequests rl\<rceil> (int (length (results_for key out)))))
       \<and> (maxRequests rl \<in> \<int> \<longrightarrow>
             real (length (filter allowed (results_for key out))) \<le> maxRequests rl
             \<and> (\<exists>e. store' key = Some e \<and> count e \<le> maxRequests rl))"
proof -
  let ?M = "\<lceil>maxRequests rl\<rceil>"
  let ?R = "t0 + windowMs rl * 1000"
  let ?e = "\<lparr>count = 1, resetTime = ?R\<rparr>"
  let ?st1 = "store(key \<mapsto> ?e)"
  let ?r = "\<lparr>allowed = True, remaining = maxRequests rl - 1, res_resetTime = ?R\<rparr>"
  have M: "1 \<le> ?M" using pos by (simp add: Suc_le_eq flip: less_ceiling_iff)
  have first: "rateLimit cfg store key t0 = (?r, ?st1)"
    using rateLimit_new_window[of cfg rl store key t0] cfg fresh by simp
  obtain rs st2 where rest: "rateLimit_calls cfg ?st1 reqs = (rs, st2)"
    by (cases "rateLimit_calls cfg ?st1 reqs")
  have out: "out = (key, ?r) # rs" and st': "store' = st2"
    using run first rest by simp_all
  let ?rs = "results_for key rs"
  have k1: "?st1 key = Some ?e" by simp
  have c1: "count ?e = of_int 1" by simp
  have w1: "\<forall>p \<in> set reqs. fst p = key \<longrightarrow> snd p < resetTime ?e" using inw by simp
  from calls_in_window[OF cfg k1 c1 M w1 rest]
  have tail: "map allowed ?rs = map (\<lambda>i. 1 + int i < ?M) [0 ..< length ?rs]
     \<and> (\<forall>r \<in> set ?rs. \<not> allowed r \<longrightarrow> remaining r = 0)
     \<and> (\<exists>e'. st2 key = Some e' \<and> resetTime e' = resetTime ?e
             \<and> count e' = of_int (min ?M (1 + int (length ?rs)))
             \<and> int (length (filter allowed ?rs)) = min ?M (1 + int (length ?rs)) - 1)" .
  have rf: "results_for key out = ?r # ?rs"
    unfolding out by (simp add: results_for_def)
  have al: "allowed (?rs ! j) \<longleftrightarrow> 1 + real j < maxRequests rl" if "j < length ?rs" for j
  proof -
    have "allowed (?rs ! j) = map allowed ?rs ! j" using that by simp
    also have "\<dots> = (1 + int j < ?M)" using tail that by simp
    also have "\<dots> = (1 + real j < maxRequests rl)" by (simp add: less_ceiling_iff)
    finally show ?thesis .
  qed
  have A: "\<forall>i < length (results_for key out).
            (allowed (results_for key out ! i) \<longleftrightarrow> real i < maxRequests rl)
          \<and> (\<not> allowed (results_for key out ! i) \<longrightarrow> remaining (results_for key out ! i) = 0)"
  proof (intro allI impI)
    fix i assume i: "i < length (results_for key out)"
    show "(allowed (results_for key out ! i) \<longleftrightarrow> real i < maxRequests rl)
          \<and> (\<not> allowed (results_for key out ! i) \<longrightarrow> remaining (results_for key out ! i) = 0)"
    proof (cases i)
      case 0
      then show ?thesis using pos rf by simp
    next
      case (Suc j)
      then have j: "j < length ?rs" using i rf by simp
      then have "?rs ! j \<in> set ?rs" by simp
      then show ?thesis using al[OF j] tail Suc rf by (auto simp: add.commute)
    qed
  qed
  have B: "int (length (filter allowed (results_for key out))) = min ?M (int (length (results_for key out)))"
    using tail rf M by auto
  have C: "\<exists>e. store' key = Some e \<and> resetTime e = t0 + windowMs rl * 1000
               \<and> count e = of_int (min ?M (int (length (results_for key out))))"
    using tail rf st' by (auto simp: add.commute)
  have D: "real (length (filter allowed (results_for key out))) \<le> maxRequests rl
             \<and> (\<exists>e. store' key = Some e \<and> count e \<le> maxRequests rl)"
    if whole: "maxRequests rl \<in> \<int>"
  proof -
    have m: "of_int ?M = maxRequests rl" using whole by (auto elim: Ints_cases)
    have "int (length (filter allowed (results_for key out))) \<le> ?M" using B by simp
    then have "real_of_int (int (length (filter allowed (results_for key out)))) \<le> of_int ?M"
      by (simp only: of_int_le_iff)
    then have 1: "real (length (filter allowed (results_for key out))) \<le> maxRequests rl"
      using m by simp
    obtain e where e: "store' key = Some e"
        "count e = of_int (min ?M (int (length (results_for key out))))"
      using C by blast
    have "(of_int (min ?M (int (length (results_for key out)))) :: real) \<le> of_int ?M"
      by simp
    then have "count e \<le> maxRequests rl" using e(2) m by simp
    then show ?thesis using 1 e(1) by blast
  qed
  from A B C D show ?thesis by blast
qed

theorem rateLimit_window_bound_witness:
  "results_for ''ip-1'' (fst (rateLimit_calls (example_limits 2) Map.empty
       [(''ip-1'', 0), (''ip-1'', 10), (''ip-2'', 20), (''ip-1'', 59999)]))
     = [\<lparr>allowed = True, remaining = 1, res_resetTime = 60000\<rparr>,
        \<lparr>allowed = True, remaining = 0, res_resetTime = 60000\<rparr>,
        \<lparr>allowed = False, remaining = 0, res_resetTime = 60000\<rparr>]
   \<and> real (length (filter allowed (results_for ''ip-1'' (fst (rateLimit_calls (example_limits 2) Map.empty
       [(''ip-1'', 0), (''ip-1'', 10), (''ip-2'', 20), (''ip-1'', 59999)]))))) \<le> 2
   \<and> (\<exists>e. snd (rateLimit_calls (example_limits 2) Map.empty
       [(''ip-1'', 0), (''ip-1'', 10), (''ip-2'', 20), (''ip-1'', 59999)]) ''ip-1'' = Some e
          \<and> resetTime e = 60000 \<and> count e = 2)"
proof -
  have cfg: "rateLimit_cfg (example_limits 2) = Some \<lparr>maxRequests = 2, windowMs = 60\<rparr>"
    by (simp add: example_limits_def)
  have pos: "0 < maxRequests \<lparr>maxRequests = 2, windowMs = 60\<rparr>"
    by simp
  have fresh: "Map.empty ''ip-1'' = None \<or> (\<exists>e. Map.empty ''ip-1'' = Some e \<and> resetTime e \<le> 0)"
    by simp
  have inw: "\<forall>p \<in> set [(''ip-1'', 10), (''ip-2'', 20), (''ip-1'', 59999)].
               fst p = ''ip-1'' \<longrightarrow> snd p < 0 + windowMs \<lparr>maxRequests = 2, windowMs = 60\<rparr> * 1000"
    by simp
  from rateLimit_window_bound [OF cfg pos fresh inw example_run]
  show ?thesis
    unfolding example_run by (simp add: results_for_def)
qed


text \<open>
  The claim as stated, for every configured \<open>maxRequests\<close>, fails at \<open>maxRequests = 0\<close>: the
  check that opens a window is admitted unconditionally, so the first check (number
  \<open>maxRequests + 1\<close>) returns \<open>allowed = true\<close> and the stored count 1 exceeds the limit 0.
  It also fails at a limit that is not whole: with \<open>maxRequests = 1.5\<close> two checks are
  admitted in one window and the stored count becomes 2.
\<close>

theorem rateLimit_limit_exceeded_counterexample:
  "rateLimit (example_limits 0) Map.empty ''ip-1'' 0
     = (\<lparr>allowed = True, remaining = - 1, res_resetTime = 60000\<rparr>,
        [''ip-1'' \<mapsto> \<lparr>count = 1, resetTime = 60000\<rparr>])
   \<and> rateLimit_calls (example_limits (3 / 2)) Map.empty [(''ip-1'', 0), (''ip-1'', 10)]
     = ([(''ip-1'', \<lparr>allowed = True, remaining = 1 / 2, res_resetTime = 60000\<rparr>),
         (''ip-1'', \<lparr>allowed = True, remaining = - (1 / 2), res_resetTime = 60000\<rparr>)],
        [''ip-1'' \<mapsto> \<lparr>count = 2, resetTime = 60000\<rparr>])"
  by (simp add: example_limits_def rateLimit_def Let_def)


text \<open>
  Claim C9. With rate limiting configured: on the first request for a key, or on a request
  arriving when the stored window's reset time has elapsed (\<open>resetTime \<le> now\<close>), the entry
  is replaced by \<open>{count = 1, resetTime = now + windowMs * 1000}\<close> and the request is
  allowed. With \<open>maxRequests = 1\<close> that first request reports \<open>remaining = 0\<close>, and any second
  request of the same key before the reset time is denied.
\<close>

theorem rateLimit_fresh_window:
  assumes "rateLimit_cfg cfg = Some rl"
    and "store key = None \<or> (\<exists>e. store key = Some e \<and> resetTime e \<le> now)"
  shows "rateLimit cfg store key now =
           (\<lparr>allowed = True, remaining = maxRequests rl - 1, res_resetTime = now + windowMs rl * 1000\<rparr>,
            store(key \<mapsto> \<lparr>count = 1, resetTime = now + windowMs rl * 1000\<rparr>))
       \<and> (maxRequests rl = 1 \<longrightarrow>
            remaining (fst (rateLimit cfg store key now)) = 0
            \<and> (\<forall>t2 < now + windowMs rl * 1000.
                  \<not> allowed (fst (rateLimit cfg (snd (rateLimit cfg store key now)) key t2))))"
proof -
  have first: "rateLimit cfg store key now =
           (\<lparr>allowed = True, remaining = maxRequests rl - 1, res_resetTime = now + windowMs rl * 1000\<rparr>,
            store(key \<mapsto> \<lparr>count = 1, resetTime = now + windowMs rl * 1000\<rparr>))"
    using rateLimit_new_window[of cfg rl store key now] assms by simp
  have "\<not> allowed (fst (rateLimit cfg (snd (rateLimit cfg store key now)) key t2))"
    if "maxRequests rl = 1" "t2 < now + windowMs rl * 1000" for t2
    unfolding first using that assms(1)
    by (simp add: rateLimit_in_window[of cfg rl _ key "\<lparr>count = 1, resetTime = now + windowMs rl * 1000\<rparr>" t2])
  then show ?thesis using first by simp
qed


theorem rateLimit_fresh_window_witness:
  "rateLimit (example_limits 1) [''ip-1'' \<mapsto> \<lparr>count = 1, resetTime = 500\<rparr>] ''ip-1'' 500
     = (\<lparr>allowed = True, remaining = 0, res_resetTime = 60500\<rparr>,
        [''ip-1'' \<mapsto> \<lparr>count = 1, resetTime = 60500\<rparr>])
   \<and> \<not> allowed (fst (rateLimit (example_limits 1)
         (snd (rateLimit (example_limits 1) [''ip-1'' \<mapsto> \<lparr>count = 1, resetTime = 500\<rparr>] ''ip-1'' 500))
         ''ip-1'' 60499))"
  using rateLimit_fresh_window [of "example_limits 1" "\<lparr>maxRequests = 1, windowMs = 60\<rparr>"
      "[''ip-1'' \<mapsto> \<lparr>count = 1, resetTime = 500\<rparr>]" "''ip-1''" 500]
  by (simp add: example_limits_def rateLimit_def Let_def)



section \<open>Evaluation\<close>

text \<open>
  Equations for evaluating the scans on a given text: they decide the first test before
  they look at the rest.
\<close>

lemma ci_starts_with_code [code]:
  "ci_starts_with [] s = True"
  "ci_starts_with (p # ps) [] = False"
  "ci_starts_with (p # ps) (c # cs) = (if lower_char p = lower_char c then ci_starts_with ps cs else False)"
  by (simp_all add: ci_starts_with_def toLowerCase_def)

lemma starts_with_code [code]:
  "starts_with [] s = True"
  "starts_with (p # ps) [] = False"
  "starts_with (p # ps) (c # cs) = (if p = c then starts_with ps cs else False)"
  by simp_all

lemma js_includes_code [code]:
  "js_includes [] sub = (sub = [])"
  "js_includes (c # cs) sub = (if starts_with sub (c # cs) then True else js_includes cs sub)"
  by simp_all

lemma ci_includes_code [code]:
  "ci_includes [] p = (p = [])"
  "ci_includes (c # cs) p = (if ci_starts_with p (c # cs) then True else ci_includes cs p)"
  by simp_all

lemma keyword_at_code [code]:
  "keyword_at [] s = False"
  "keyword_at (k # kws) s =
     (if ci_starts_with k s then (if boundary_here (drop (length k) s) then True else keyword_at kws s)
      else keyword_at kws s)"
  by (simp_all add: keyword_at_def)

lemma keyword_scan_code [code]:
  "keyword_scan kws prev_word [] = False"
  "keyword_scan kws prev_word (c # cs) =
     (if prev_word then keyword_scan kws (is_word c) cs
      else if keyword_at kws (c # cs) then True else keyword_scan kws (is_word c) cs)"
  by simp_all

lemma xss_pattern_code [code]:
  "xss_pattern [] = False"
  "xss_pattern (c # cs) = (if script_at (c # cs) then True else xss_pattern cs)"
  by simp_all

lemma containsExternalUrls_code [code]:
  "containsExternalUrls [] = False"
  "containsExternalUrls (c # cs) = (if url_at (c # cs) \<noteq> None then True else containsExternalUrls cs)"
  by simp_all

lemma containsMaliciousContent_code [code]:
  "containsMaliciousContent input =
     (if sql_pattern input then True else if xss_pattern input then True
      else if command_pattern input then True else if traversal_pattern input then True
      else extension_pattern input)"
  by (simp add: containsMaliciousContent_def)

section \<open>Properties of the Input Guard\<close>

subsection \<open>The result of validateInput\<close>

lemma validateInput_short_circuit:
  "\<not> non_empty_string input \<Longrightarrow>
     validateInput rt cfg input =
       \<lparr>isValid = False, sanitizedInput = None, errors = Some [''Input must be a non-empty string'']\<rparr>"
  by (cases input) (simp_all add: validateInput_def non_empty_string_def)

lemma validateInput_steps:
  "s \<noteq> [] \<Longrightarrow>
     validateInput rt cfg (JStr s) =
       \<lparr>isValid = (all_checks rt cfg s = []),
        sanitizedInput = (if all_checks rt cfg s = [] then Some (sanitized_text cfg s) else None),
        errors = (if all_checks rt cfg s = [] then None else Some (all_checks rt cfg s))\<rparr>"
proof -
  assume ne: "s \<noteq> []"
  define t where "t = sanitized_text cfg s"
  define e1 where "e1 = length_check cfg s"
  define e2 where "e2 = malicious_check t"
  define e3 where "e3 = domain_check rt cfg t"
  have a: "all_checks rt cfg s = e1 @ e2 @ e3"
    by (simp add: all_checks_def e1_def e2_def e3_def t_def)
  have l2: "(if containsMaliciousContent t then e1 @ [''Input contains potentially malicious content''] else e1)
            = e1 @ e2"
    by (simp add: e2_def malicious_check_def)
  have l3: "(if allowedDomains cfg \<noteq> None \<and> containsExternalUrls t then
                (if 0 < length (filter (\<lambda>url. \<not> isAllowedDomain rt cfg url) (extractUrls t))
                 then (e1 @ e2) @ [''External URLs not allowed: '' @ js_join '', ''
                         (filter (\<lambda>url. \<not> isAllowedDomain rt cfg url) (extractUrls t))]
                 else e1 @ e2)
              else e1 @ e2) = e1 @ e2 @ e3"
    by (simp add: e3_def domain_check_def)
  have v: "validateInput rt cfg (JStr s) =
     \<lparr>isValid = (length (e1 @ e2 @ e3) = 0),
      sanitizedInput = (if length (e1 @ e2 @ e3) = 0 then Some t else None),
      errors = (if length (e1 @ e2 @ e3) > 0 then Some (e1 @ e2 @ e3) else None)\<rparr>"
    unfolding validateInput_def using ne
    apply (simp only: js_value.case if_False Let_def)
    apply (fold sanitized_text_def [of cfg s] length_check_def [of cfg s])
    apply (fold t_def e1_def)
    apply (simp only: l2 l3)
    done
  show ?thesis unfolding v a by (auto simp: t_def)
qed

text \<open>
  Claim C7. For every input and configuration: \<open>isValid\<close> holds exactly when the result
  carries no errors, and \<open>sanitizedInput\<close> is present exactly when the result is valid. An
  input that is no non-empty string returns at once with the single error
  \<open>Input must be a non-empty string\<close>. On a non-empty string the result is valid exactly
  when no step reports anything, and otherwise its errors are the reports of all the steps
  together, in the order of the steps.
\<close>

theorem validateInput_reports_all_errors:
  "(isValid (validateInput rt cfg input) \<longleftrightarrow> errors (validateInput rt cfg input) = None)
   \<and> (sanitizedInput (validateInput rt cfg input) \<noteq> None \<longleftrightarrow> isValid (validateInput rt cfg input))
   \<and> (\<not> non_empty_string input \<longrightarrow>
        validateInput rt cfg input =
          \<lparr>isValid = False, sanitizedInput = None, errors = Some [''Input must be a non-empty string'']\<rparr>)
   \<and> (\<forall>s. input = JStr s \<and> s \<noteq> [] \<longrightarrow>
        (isValid (validateInput rt cfg input) \<longleftrightarrow> all_checks rt cfg s = [])
        \<and> (all_checks rt cfg s \<noteq> [] \<longrightarrow> errors (validateInput rt cfg input) = Some (all_checks rt cfg s)))"
proof (cases "non_empty_string input")
  case False
  then show ?thesis
    using validateInput_short_circuit[OF False, of rt cfg]
    by (auto simp: non_empty_string_def)
next
  case True
  then obtain s where s: "input = JStr s" "s \<noteq> []"
    by (cases input) (auto simp: non_empty_string_def)
  show ?thesis
    using True unfolding s(1) validateInput_steps[OF s(2)] by simp
qed

theorem validateInput_reports_all_errors_witness:
  "\<not> isValid (validateInput sample_runtime (example_guard\<lparr>maxInputLength := Some 10\<rparr>)
                  (JStr ''DROP  http://e.t/x''))
   \<and> sanitizedInput (validateInput sample_runtime (example_guard\<lparr>maxInputLength := Some 10\<rparr>)
                       (JStr ''DROP  http://e.t/x'')) = None
   \<and> errors (validateInput sample_runtime (example_guard\<lparr>maxInputLength := Some 10\<rparr>)
                (JStr ''DROP  http://e.t/x''))
       = Some [''Input length exceeds maximum allowed length of 10 characters'',
               ''Input contains potentially malicious content'',
               ''External URLs not allowed: http://e.t/x'']
   \<and> validateInput sample_runtime (example_guard\<lparr>maxInputLength := Some 10\<rparr>) JNull
       = \<lparr>isValid = False, sanitizedInput = None, errors = Some [''Input must be a non-empty string'']\<rparr>"
proof -
  have checks: "all_checks sample_runtime (example_guard\<lparr>maxInputLength := Some 10\<rparr>) ''DROP  http://e.t/x''
      = [''Input length exceeds maximum allowed length of 10 characters'',
         ''Input contains potentially malicious content'',
         ''External URLs not allowed: http://e.t/x'']"
    by code_simp
  let ?r = "validateInput sample_runtime (example_guard\<lparr>maxInputLength := Some 10\<rparr>)
              (JStr ''DROP  http://e.t/x'')"
  note main = validateInput_reports_all_errors
      [of sample_runtime "example_guard\<lparr>maxInputLength := Some 10\<rparr>" "JStr ''DROP  http://e.t/x''"]
  have invalid: "\<not> isValid ?r"
    using main checks by simp
  have no_text: "sanitizedInput ?r = None"
    using main invalid by blast
  have all: "errors ?r = Some [''Input length exceeds maximum allowed length of 10 characters'',
               ''Input contains potentially malicious content'',
               ''External URLs not allowed: http://e.t/x'']"
    using main checks by simp
  have no_string: "\<not> non_empty_string JNull"
    by (simp add: non_empty_string_def)
  have short: "validateInput sample_runtime (example_guard\<lparr>maxInputLength := Some 10\<rparr>) JNull
       = \<lparr>isValid = False, sanitizedInput = None, errors = Some [''Input must be a non-empty string'']\<rparr>"
    using validateInput_reports_all_errors
            [of sample_runtime "example_guard\<lparr>maxInputLength := Some 10\<rparr>" JNull] no_string
    by blast
  from invalid no_text all short show ?thesis by blast
qed



subsection \<open>Sanitization\<close>

lemma is_space_blank: "is_space (CHR '' '')"
  by (simp add: is_space_def code_def)

lemma collapse_whitespace_hd:
  "collapse_whitespace w = c # cs \<Longrightarrow> is_space c \<Longrightarrow> c = CHR '' ''"
  by (cases w) (auto split: if_splits)

lemma normal_ws_collapse: "normal_ws (collapse_whitespace w)"
proof (induction w rule: collapse_whitespace.induct)
  case 1
  then show ?case by simp
next
  case (2 c cs)
  show ?case
  proof (cases "is_space c")
    case True
    let ?r = "collapse_whitespace (dropWhile is_space cs)"
    have IH: "normal_ws ?r" using 2 True by simp
    show ?thesis
    proof (cases ?r)
      case Nil
      then show ?thesis using True by simp
    next
      case (Cons d ds)
      have "\<not> is_space d"
      proof (cases "dropWhile is_space cs")
        case Nil
        have "?r = []" unfolding Nil by simp
        then show ?thesis using Cons by simp
      next
        case (Cons e es)
        then have "\<not> is_space e" using hd_dropWhile[of is_space cs] by simp
        then show ?thesis using Cons \<open>?r = d # ds\<close> by simp
      qed
      then show ?thesis using True Cons IH by simp
    qed
  next
    case False
    have IH: "normal_ws (collapse_whitespace cs)" using 2 False by simp
    show ?thesis using False IH by (cases "collapse_whitespace cs") simp_all
  qed
qed

lemma collapse_normal: "normal_ws w \<Longrightarrow> collapse_whitespace w = w"
proof (induction w rule: normal_ws.induct)
  case 1
  then show ?case by simp
next
  case (2 c)
  then show ?case by simp
next
  case (3 c d cs)
  then show ?case by (cases "is_space c") simp_all
qed

lemma normal_ws_tl: "normal_ws (c # cs) \<Longrightarrow> normal_ws cs"
  by (cases cs) simp_all

lemma normal_ws_drop: "normal_ws w \<Longrightarrow> normal_ws (drop n w)"
proof (induction n arbitrary: w)
  case 0
  then show ?case by simp
next
  case (Suc n)
  then show ?case by (cases w) (auto dest: normal_ws_tl)
qed

lemma normal_ws_take: "normal_ws w \<Longrightarrow> normal_ws (take n w)"
proof (induction w arbitrary: n rule: normal_ws.induct)
  case 1
  then show ?case by simp
next
  case (2 c)
  then show ?case by (cases n) simp_all
next
  case (3 c d cs)
  show ?case
  proof (cases n)
    case 0
    then show ?thesis by simp
  next
    case (Suc m)
    have "normal_ws (take m (d # cs))" using 3 by simp
    then show ?thesis using 3(2) Suc by (cases m) simp_all
  qed
qed

lemma trim_take_drop: "\<exists>m n. trim w = take n (drop m w)"
proof -
  have a: "dropWhile is_space w = drop (length (takeWhile is_space w)) w"
    by (simp add: dropWhile_eq_drop)
  have b: "rev (dropWhile is_space (rev v)) = take (length v - length (takeWhile is_space (rev v))) v" for v
    by (simp add: dropWhile_eq_drop rev_drop)
  show ?thesis unfolding trim_def a b by blast
qed

lemma normal_ws_trim: "normal_ws w \<Longrightarrow> normal_ws (trim w)"
  using trim_take_drop[of w] normal_ws_take normal_ws_drop by (metis)

lemma set_trim: "set (trim w) \<subseteq> set w"
  unfolding trim_def by (metis set_dropWhileD set_rev subsetI)

lemma trim_ends:
  "trim w = [] \<or> (\<not> is_space (hd (trim w)) \<and> \<not> is_space (last (trim w)))"
proof (cases "dropWhile is_space w = []")
  case True
  have "trim w = []" unfolding trim_def True by simp
  then show ?thesis by simp
next
  case False
  let ?v = "dropWhile is_space w"
  have hv: "\<not> is_space (hd ?v)" using False hd_dropWhile by blast
  have "last (rev ?v) = hd ?v" using False by (simp add: last_rev)
  then have ne: "dropWhile is_space (rev ?v) \<noteq> []"
    using hv False by (metis dropWhile_eq_Nil_conv last_in_set rev_is_Nil_conv)
  then have h: "\<not> is_space (hd (dropWhile is_space (rev ?v)))" using hd_dropWhile by blast
  have l: "last (dropWhile is_space (rev ?v)) = hd ?v"
    using ne \<open>last (rev ?v) = hd ?v\<close> by (metis append_Nil2 last_appendR takeWhile_dropWhile_id)
  have "hd (trim w) = last (dropWhile is_space (rev ?v))"
    unfolding trim_def using ne by (simp add: hd_rev)
  moreover have "last (trim w) = hd (dropWhile is_space (rev ?v))"
    unfolding trim_def using ne by (simp add: last_rev)
  ultimately show ?thesis using h l hv by simp
qed

lemma trim_fixed:
  assumes "w = [] \<or> (\<not> is_space (hd w) \<and> \<not> is_space (last w))"
  shows "trim w = w"
proof (cases "w = []")
  case True
  then show ?thesis by (simp add: trim_def)
next
  case False
  then have a: "dropWhile is_space w = w" using assms by (cases w) simp_all
  have "rev w \<noteq> []" using False by simp
  moreover have "\<not> is_space (hd (rev w))" using assms False by (simp add: hd_rev)
  ultimately have "dropWhile is_space (rev w) = rev w" by (cases "rev w") simp_all
  then show ?thesis by (simp add: trim_def a)
qed

lemma trim_idem: "trim (trim w) = trim w"
  using trim_fixed[OF trim_ends] .

lemma set_collapse: "set (collapse_whitespace w) \<subseteq> insert (CHR '' '') (set w)"
proof (induction w rule: collapse_whitespace.induct)
  case 1
  then show ?case by simp
next
  case (2 c cs)
  then show ?case using set_dropWhileD[of _ is_space cs] by (auto split: if_splits)
qed

lemma blank_plain: "\<not> is_control (CHR '' '')" "code (CHR '' '') \<noteq> 0"
  by (simp_all add: is_control_def code_def)

lemma sanitizeInput_idempotent: "sanitizeInput (sanitizeInput x) = sanitizeInput x"
proof -
  let ?clean = "\<lambda>s. filter (\<lambda>c. \<not> is_control c) (filter (\<lambda>c. code c \<noteq> 0) s)"
  let ?y = "sanitizeInput x"
  have y: "?y = trim (collapse_whitespace (?clean x))" by (simp add: sanitizeInput_def)
  have "set ?y \<subseteq> insert (CHR '' '') (set (?clean x))"
    unfolding y using set_trim set_collapse by blast
  then have "\<forall>c \<in> set ?y. \<not> is_control c \<and> code c \<noteq> 0"
    using blank_plain by auto
  then have clean: "?clean ?y = ?y" by (simp add: filter_id_conv)
  have "normal_ws ?y" unfolding y by (intro normal_ws_trim normal_ws_collapse)
  then have col: "collapse_whitespace ?y = ?y" by (rule collapse_normal)
  have "trim ?y = ?y" unfolding y by (rule trim_idem)
  then show ?thesis
    using clean col by (simp add: sanitizeInput_def[of "sanitizeInput x"])
qed


text \<open>
  Claim C8, as amended. \<open>sanitizeInput\<close> is idempotent. When sanitization is enabled, every
  input that \<open>validateInput\<close> accepts is returned with a \<open>sanitizedInput\<close> that is a fixed
  point of \<open>sanitizeInput\<close>.
\<close>

theorem sanitizedInput_fixed_point:
  "sanitizeInput (sanitizeInput x) = sanitizeInput x
   \<and> (sanitizeInput_cfg cfg \<and> isValid (validateInput rt cfg input) \<longrightarrow>
        (\<exists>y. sanitizedInput (validateInput rt cfg input) = Some y \<and> sanitizeInput y = y))"
proof (intro conjI impI)
  show "sanitizeInput (sanitizeInput x) = sanitizeInput x"
    by (rule sanitizeInput_idempotent)
next
  assume a: "sanitizeInput_cfg cfg \<and> isValid (validateInput rt cfg input)"
  have "non_empty_string input"
  proof (rule ccontr)
    assume "\<not> non_empty_string input"
    then have "\<not> isValid (validateInput rt cfg input)"
      by (simp add: validateInput_short_circuit)
    then show False using a by simp
  qed
  then obtain s where s: "input = JStr s" "s \<noteq> []"
    by (cases input) (auto simp: non_empty_string_def)
  have "sanitizedInput (validateInput rt cfg input) = Some (sanitizeInput s)"
    using a unfolding s(1) validateInput_steps[OF s(2)] by (simp add: sanitized_text_def)
  then show "\<exists>y. sanitizedInput (validateInput rt cfg input) = Some y \<and> sanitizeInput y = y"
    using sanitizeInput_idempotent by simp
qed

theorem sanitizedInput_fixed_point_witness:
  "sanitizedInput (validateInput sample_runtime example_guard (JStr ''  hello   world '')) = Some ''hello world''
   \<and> sanitizeInput ''hello world'' = ''hello world''"
proof -
  have v: "validateInput sample_runtime example_guard (JStr ''  hello   world '')
             = \<lparr>isValid = True, sanitizedInput = Some ''hello world'', errors = None\<rparr>"
    by code_simp
  have on: "sanitizeInput_cfg example_guard"
    by (simp add: example_guard_def)
  show ?thesis
    using sanitizedInput_fixed_point [of "''x''" example_guard sample_runtime "JStr ''  hello   world ''"] on
    unfolding v by simp
qed

text \<open>
  The claim as stated, for every valid input, fails where sanitization is not enabled:
  the input is then returned as it came, and \<open>a  b\<close> with its two spaces is valid and is
  no fixed point.
\<close>

theorem sanitizedInput_unsanitized_counterexample:
  "isValid (validateInput sample_runtime (example_guard\<lparr>sanitizeInput_cfg := False\<rparr>) (JStr ''a  b''))
   \<and> sanitizedInput (validateInput sample_runtime (example_guard\<lparr>sanitizeInput_cfg := False\<rparr>) (JStr ''a  b''))
       = Some ''a  b''
   \<and> sanitizeInput ''a  b'' = ''a b''"
  by code_simp



section \<open>Properties of the Parameter Resolver\<close>

lemma extract_outside_table:
  "paramName \<notin> set extraction_table \<Longrightarrow> extractParameterFromString rt input paramName paramConfig = None"
  by (simp add: extraction_table_def extractParameterFromString_def)

lemma table_has_no_proto: "''__proto__'' \<notin> set extraction_table"
  by (simp add: extraction_table_def)

lemma map_of_replace:
  "map_of (map (\<lambda>(q, w). if q = p then (q, v) else (q, w)) props) x =
     (if x = p then (case map_of props p of None \<Rightarrow> None | Some w \<Rightarrow> Some v) else map_of props x)"
  by (induction props) auto
lemma set_property_Nil: "set_property [] p v = [(p, v)]"
  by (simp add: set_property_def split: option.splits)
lemma map_of_insert_indexed:
  "p \<notin> fst ` set props \<Longrightarrow> map_of (insert_indexed i p v props) = (map_of props)(p \<mapsto> v)"
  by (induction i p v props rule: insert_indexed.induct)
     (auto simp: fun_eq_iff split: option.splits)
lemma map_of_set_property: "map_of (set_property props p v) = (map_of props)(p \<mapsto> v)"
proof (cases "p \<in> fst ` set props")
  case True
  then obtain w where "map_of props p = Some w"
    by (cases "map_of props p") (auto simp: map_of_eq_None_iff)
  then show ?thesis using True by (simp add: set_property_def map_of_replace fun_eq_iff)
next
  case False
  then have "map_of props p = None" by (simp add: map_of_eq_None_iff)
  then show ?thesis
    using False
    by (auto simp: set_property_def map_of_insert_indexed fun_eq_iff map_add_def
             split: option.splits)
qed

text \<open>
  On an ordinary object with the prototype \<open>Object.prototype\<close>, an assignment to a name
  other than \<open>__proto__\<close> sets an own property, unless the runtime keeps a property of
  that name on \<open>Object.prototype\<close> that cannot be written.
\<close>

lemma assign_plain:
  assumes "p \<noteq> ''__proto__''" and "\<not> builtin_readonly rt ''Object.prototype'' p"
  shows "assign rt (JObj props) p v = Inr (JObj (set_property props p v))"
  using assms
  by (simp add: assign_def own_props_def with_props_def prototype_of_def standard_prototype_def)

text \<open>
  Resolution by name. When the parsed value has a property for every required parameter,
  the loop of the \<open>try\<close> block ends with an object that holds exactly the named fields:
  the properties of the parsed value, own or inherited, that the schema names.
\<close>

lemma json_parameters_present:
  assumes j: "\<not> nullish j"
    and names: "''__proto__'' \<notin> fst ` set entries"
    and writable: "\<forall>q. \<not> builtin_readonly rt ''Object.prototype'' q"
    and present: "\<forall>(q, qc) \<in> set entries. required qc \<longrightarrow> chain_get rt j j q \<noteq> JUndefined"
  shows "\<exists>obj has'. json_parameters rt input j entries (JObj acc, has) = Inr (JObj obj, has')
           \<and> map_of obj = map_of acc ++ named_fields rt j entries
           \<and> (has' \<longleftrightarrow> has \<or> (\<exists>q. named_fields rt j entries q \<noteq> None))"
  using names present
proof (induction entries arbitrary: acc has)
  case Nil
  then show ?case by (simp add: named_fields_def fun_eq_iff map_add_def)
next
  case (Cons a entries)
  obtain q qc where a: "a = (q, qc)" by (cases a)
  have q: "q \<noteq> ''__proto__''" using Cons.prems(1) a by auto
  have rest: "''__proto__'' \<notin> fst ` set entries"
     "\<forall>(q, qc) \<in> set entries. required qc \<longrightarrow> chain_get rt j j q \<noteq> JUndefined"
    using Cons.prems by simp_all
  have get: "get_property rt j q = Inr (chain_get rt j j q)"
    using j by (simp add: get_property_def)
  have nf: "named_fields rt j (a # entries) =
        (\<lambda>x. if x = q then (if chain_get rt j j q \<noteq> JUndefined then Some (chain_get rt j j q) else None)
              else named_fields rt j entries x)"
    by (auto simp: named_fields_def a fun_eq_iff)
  show ?case
  proof (cases "chain_get rt j j q = JUndefined")
    case False
    let ?w = "chain_get rt j j q"
    from Cons.IH[OF rest, of "set_property acc q ?w" True]
    obtain obj has' where r:
      "json_parameters rt input j entries (JObj (set_property acc q ?w), True) = Inr (JObj obj, has')"
      "map_of obj = map_of (set_property acc q ?w) ++ named_fields rt j entries"
      by blast
    have step: "json_parameters rt input j (a # entries) (JObj acc, has) = Inr (JObj obj, has')"
      using False r(1) get assign_plain[OF q, of rt acc ?w] writable by (simp add: a)
    have m: "map_of obj = map_of acc ++ named_fields rt j (a # entries)"
      unfolding r(2) nf map_of_set_property using False
      by (auto simp: fun_eq_iff map_add_def named_fields_def split: option.splits)
    have "\<exists>x. named_fields rt j (a # entries) x \<noteq> None"
      unfolding nf using False by (intro exI[of _ q]) simp
    moreover have "has'"
      using r(1) Cons.IH[OF rest, of "set_property acc q ?w" True] by auto
    ultimately show ?thesis using step m by blast
  next
    case True
    then have opt: "\<not> required qc" using Cons.prems(2) a by auto
    from Cons.IH[OF rest, of acc has]
    obtain obj has' where r: "json_parameters rt input j entries (JObj acc, has) = Inr (JObj obj, has')"
      "map_of obj = map_of acc ++ named_fields rt j entries"
      "has' \<longleftrightarrow> has \<or> (\<exists>q. named_fields rt j entries q \<noteq> None)"
      by blast
    have step: "json_parameters rt input j (a # entries) (JObj acc, has) = Inr (JObj obj, has')"
      using opt True r(1) get by (simp add: a)
    have m: "map_of obj = map_of acc ++ named_fields rt j (a # entries)"
      unfolding r(2) nf using True
      by (auto simp: fun_eq_iff map_add_def named_fields_def split: option.splits)
    have "(\<exists>x. named_fields rt j (a # entries) x \<noteq> None) \<longleftrightarrow> (\<exists>x. named_fields rt j entries x \<noteq> None)"
      unfolding nf using True by (auto simp: named_fields_def split: if_splits)
    then show ?thesis using step m r(3) by blast
  qed
qed

lemma parseInput_named_fields:
  assumes schema: "parameters tool = Some entries"
    and one: "\<forall>(q, qc) \<in> set entries. required qc \<longleftrightarrow> q = p"
    and p: "p \<in> fst ` set entries"
    and names: "''__proto__'' \<notin> fst ` set entries"
    and writable: "\<forall>q. \<not> builtin_readonly rt ''Object.prototype'' q"
    and parsed: "JSON_parse rt input = Some j"
    and field: "get_property rt j p = Inr v" "v \<noteq> JUndefined"
  shows "\<exists>obj. parseInput rt input tool = Inr (JObj obj)
               \<and> map_of obj p = Some v
               \<and> map_of obj = named_fields rt j entries"
proof -
  have j: "\<not> nullish j" and v: "chain_get rt j j p = v"
    using field(1) by (auto simp: get_property_def split: if_splits)
  have "\<forall>(q, qc) \<in> set entries. required qc \<longrightarrow> chain_get rt j j q \<noteq> JUndefined"
    using one v field(2) by auto
  from json_parameters_present[OF j names writable this, of input "[]" False]
  obtain obj has' where r: "json_parameters rt input j entries (JObj [], False) = Inr (JObj obj, has')"
    "map_of obj = map_of [] ++ named_fields rt j entries"
    "has' \<longleftrightarrow> False \<or> (\<exists>q. named_fields rt j entries q \<noteq> None)"
    by blast
  have nf: "named_fields rt j entries p = Some v"
    using p v field(2) by (simp add: named_fields_def)
  then have h: "has'" using r(3) by auto
  have m: "map_of obj = named_fields rt j entries" using r(2) by simp
  have "parseInput rt input tool = Inr (JObj obj)"
    using parsed schema r(1) h by (simp add: parseInput_def parseInput_try_def)
  then show ?thesis using m nf by simp
qed

text \<open>
  The schema with the one parameter \<open>p\<close>: a parsed value with a property \<open>p\<close> resolves to
  the object that holds that property and nothing else.
\<close>

lemma parseInput_single_parameter:
  assumes "parameters tool = Some [(p, cfg)]"
    and "p \<noteq> ''__proto__''" and "\<not> builtin_readonly rt ''Object.prototype'' p"
    and "JSON_parse rt input = Some j"
    and "get_property rt j p = Inr v" "v \<noteq> JUndefined"
  shows "parseInput rt input tool = Inr (JObj [(p, v)])"
  using assms assign_plain[of p rt "[]" v]
  by (simp add: parseInput_def parseInput_try_def set_property_Nil)

text \<open>
  Resolution from the text. A required parameter that the parsed value has no property
  for, and that the extraction table has no case for, ends the loop of the \<open>try\<close> block
  with an error, whatever the other parameters do.
\<close>

lemma json_parameters_fails:
  assumes "(p, cfg) \<in> set entries" and "required cfg" and "p \<notin> set extraction_table"
    and "nullish j \<or> chain_get rt j j p = JUndefined"
  shows "\<exists>e. json_parameters rt input j entries state = Inl e"
  using assms(1)
proof (induction entries arbitrary: state)
  case Nil
  then show ?case by simp
next
  case (Cons a entries)
  obtain q qc where a: "a = (q, qc)" by (cases a)
  obtain acc has where state: "state = (acc, has)" by (cases state)
  show ?case
  proof (cases "a = (p, cfg)")
    case True
    then show ?thesis
      using assms(2,3,4) extract_outside_table[OF assms(3), of rt input cfg]
      by (auto simp: state get_property_def)
  next
    case False
    then have "(p, cfg) \<in> set entries" using Cons.prems by simp
    from Cons.IH[OF this] show ?thesis
      unfolding a state
      by (auto split: sum.splits option.splits)
  qed
qed

lemma string_parameters_missing:
  assumes "\<forall>(q, qc) \<in> set entries. required qc \<longleftrightarrow> q = p"
    and "p \<in> fst ` set entries"
    and "p \<notin> set extraction_table"
    and writable: "\<forall>q. \<not> builtin_readonly rt ''Object.prototype'' q"
  shows "string_parameters rt input entries (JObj acc, has) =
           Inl (Error (''Required parameter '' @ [CHR 0x27] @ p @ [CHR 0x27]
                        @ '' not found in input: '' @ [CHR 0x22] @ input @ [CHR 0x22]))"
  using assms(1,2)
proof (induction entries arbitrary: acc has)
  case Nil
  then show ?case by simp
next
  case (Cons a entries)
  obtain q qc where a: "a = (q, qc)" by (cases a)
  show ?case
  proof (cases "q = p")
    case True
    then have "required qc" using Cons.prems(1) a by simp
    then show ?thesis
      using True a extract_outside_table[OF assms(3), of rt input qc] by simp
  next
    case False
    then have opt: "\<not> required qc" using Cons.prems(1) a by simp
    have rest: "\<forall>(q, qc) \<in> set entries. required qc \<longleftrightarrow> q = p" "p \<in> fst ` set entries"
      using Cons.prems False a by auto
    show ?thesis
    proof (cases "extractParameterFromString rt input q qc")
      case None
      then show ?thesis using opt a Cons.IH[OF rest] by simp
    next
      case (Some x)
      then have "q \<in> set extraction_table" using extract_outside_table[of q rt input qc] by auto
      then have "q \<noteq> ''__proto__''" using table_has_no_proto by auto
      then have "assign rt (JObj acc) q x = Inr (JObj (set_property acc q x))"
        using assign_plain writable by simp
      then show ?thesis using Some a Cons.IH[OF rest] by simp
    qed
  qed
qed

lemma parseInput_missing_parameter:
  assumes schema: "parameters tool = Some entries"
    and one: "\<forall>(q, qc) \<in> set entries. required qc \<longleftrightarrow> q = p"
    and p: "p \<in> fst ` set entries"
    and outside: "p \<notin> set extraction_table"
    and writable: "\<forall>q. \<not> builtin_readonly rt ''Object.prototype'' q"
    and unparsed: "JSON_parse rt input = None
                   \<or> (\<exists>j. JSON_parse rt input = Some j \<and> (nullish j \<or> chain_get rt j j p = JUndefined))"
  shows "parseInput rt input tool =
           Inl (Error (''Required parameter '' @ [CHR 0x27] @ p @ [CHR 0x27]
                        @ '' not found in input: '' @ [CHR 0x22] @ input @ [CHR 0x22]))"
proof -
  have catch: "parseInput_catch rt input tool =
           Inl (Error (''Required parameter '' @ [CHR 0x27] @ p @ [CHR 0x27]
                        @ '' not found in input: '' @ [CHR 0x22] @ input @ [CHR 0x22]))"
    using schema string_parameters_missing[OF one p outside writable, of input "[]" False]
    by (simp add: parseInput_catch_def)
  from unparsed show ?thesis
  proof
    assume "JSON_parse rt input = None"
    then show ?thesis using catch by (simp add: parseInput_def)
  next
    assume "\<exists>j. JSON_parse rt input = Some j \<and> (nullish j \<or> chain_get rt j j p = JUndefined)"
    then obtain j where j: "JSON_parse rt input = Some j" "nullish j \<or> chain_get rt j j p = JUndefined"
      by blast
    obtain cfg where cfg: "(p, cfg) \<in> set entries" using p by auto
    then have "required cfg" using one by auto
    from json_parameters_fails[OF cfg this outside j(2), of input "(JObj [], False)"]
    obtain e where "json_parameters rt input j entries (JObj [], False) = Inl e" by blast
    then have "\<exists>e. parseInput_try rt input tool j = Inl e"
      using schema by (simp add: parseInput_try_def)
    then show ?thesis using j(1) catch by (auto simp: parseInput_def)
  qed
qed

text \<open>
  Claim C4, at two inputs where the code departs from it. The test of the \<open>try\<close> block,
  \<open>jsonInput[paramName] !== undefined\<close>, reads a property of whatever \<open>JSON.parse\<close>
  returned, own or inherited.

  First, the tool has the one required parameter \<open>length\<close>, a name outside the extraction
  table, and the raw input is the JSON text \<open>"hello"\<close>, which parses as a string and not
  as structured data. The claim has resolution fail with an error that names the
  parameter. The code finds the length 5 of the parsed string and resolves the parameter
  to it: the tool is called with \<open>{length: 5}\<close>.

  Second, the schema has the required parameter \<open>units\<close> and an optional parameter
  \<open>constructor\<close>, and the raw input parses as the object \<open>{units: 'metric'}\<close>. The claim
  has resolution return an argument object that holds exactly the value of that field.
  The code also finds the \<open>constructor\<close> that every object inherits, and returns an
  argument object with the two properties \<open>units\<close> and \<open>constructor\<close>.
\<close>

theorem parseInput_reads_inherited_properties:
  "parameters password_tool
     = Some [(''length'', \<lparr>param_type = ''number'', param_description = ''Password length'',
                            param_enum = None, required = True\<rparr>)]
   \<and> ''length'' \<notin> set extraction_table
   \<and> JSON_parse sample_runtime ''\"hello\"'' = Some (JStr ''hello'')
   \<and> parseInput sample_runtime ''\"hello\"'' password_tool = Inr (JObj [(''length'', JNum 5)])
   \<and> tool_func sample_runtime password_tool ''\"hello\"'' = Inr ''a new password''
   \<and> JSON_parse sample_runtime ''{\"units\": \"metric\"}'' = Some (JObj [(''units'', JStr ''metric'')])
   \<and> parseInput sample_runtime ''{\"units\": \"metric\"}''
         (units_tool\<lparr>parameters :=
            Some [(''units'', \<lparr>param_type = ''string'', param_description = ''The unit system'',
                                 param_enum = Some [''metric'', ''imperial''], required = True\<rparr>),
                  (''constructor'', \<lparr>param_type = ''string'', param_description = ''The maker'',
                                       param_enum = None, required = False\<rparr>)]\<rparr>)
       = Inr (JObj [(''units'', JStr ''metric''), (''constructor'', JBuiltin ''Object'')])"
proof -
  have a: "parseInput sample_runtime ''\"hello\"'' password_tool = Inr (JObj [(''length'', JNum 5)])"
    by (simp add: parseInput_def parseInput_try_def sample_runtime_def password_tool_def
        get_property_def nullish_def own_property_def assign_def own_props_def with_props_def
        prototype_of_def standard_prototype_def set_property_def array_index_def is_digit_def code_def)
  have b: "tool_method password_tool (JObj [(''length'', JNum 5)]) = Inr (JStr ''a new password'')"
    by (simp add: password_tool_def get_property_def nullish_def own_property_def)
  have c: "tool_func sample_runtime password_tool ''\"hello\"'' = Inr ''a new password''"
    by (simp add: tool_func_def try_catch_def a b)
  have d: "parseInput sample_runtime ''{\"units\": \"metric\"}''
         (units_tool\<lparr>parameters :=
            Some [(''units'', \<lparr>param_type = ''string'', param_description = ''The unit system'',
                                 param_enum = Some [''metric'', ''imperial''], required = True\<rparr>),
                  (''constructor'', \<lparr>param_type = ''string'', param_description = ''The maker'',
                                       param_enum = None, required = False\<rparr>)]\<rparr>)
       = Inr (JObj [(''units'', JStr ''metric''), (''constructor'', JBuiltin ''Object'')])"
    by (simp add: parseInput_def parseInput_try_def sample_runtime_def units_tool_def
        get_property_def nullish_def own_property_def assign_def own_props_def with_props_def
        prototype_of_def standard_prototype_def set_property_def array_index_def is_digit_def code_def)
  show ?thesis
    using a c d by (simp add: password_tool_def extraction_table_def sample_runtime_def)
qed


section \<open>Properties of the tool adapters\<close>

text \<open>
  The callable of an adapter, case by case: an error of the resolution, of the tool's
  method or of the string conversion goes to the \<open>catch\<close> block, which answers with
  \<open>Error: \<close> and the message when it can read one, and throws a TypeError of its own
  when the thrown value is \<open>null\<close> or \<open>undefined\<close>.
\<close>

lemma tool_func_cases:
  "tool_func rt tool input =
    (case (case parseInput rt input tool of
             Inl e \<Rightarrow> Inl e
           | Inr parsedInput \<Rightarrow>
              (case tool_method tool parsedInput of
                 Inl e \<Rightarrow> Inl e
               | Inr result \<Rightarrow> js_String rt result)) of
       Inr out \<Rightarrow> Inr out
     | Inl e \<Rightarrow> (case message_text e of Inl thrown \<Rightarrow> Inl thrown | Inr m \<Rightarrow> Inr (''Error: '' @ m)))"
  by (simp add: tool_func_def try_catch_def split: sum.splits)

lemma message_text_Error: "message_text (Error m) = Inr m"
  by (simp add: message_text_def)

lemma message_text_cases:
  "message_text e =
    (case e of
       Error m \<Rightarrow> Inr m
     | Thrown PUndefined \<Rightarrow> Inl TypeError
     | Thrown PNull \<Rightarrow> Inl TypeError
     | Thrown _ \<Rightarrow> Inr ''undefined'')"
  by (cases e rule: message.cases) (simp_all add: message_text_def)

lemma tool_func_result:
  "parseInput rt input tool = Inr args \<Longrightarrow> tool_method tool args = Inr result \<Longrightarrow>
     js_String rt result = Inr out \<Longrightarrow> tool_func rt tool input = Inr out"
  by (simp add: tool_func_cases)

lemma tool_func_resolution_error:
  "parseInput rt input tool = Inl (Error m) \<Longrightarrow> tool_func rt tool input = Inr (''Error: '' @ m)"
  by (simp add: tool_func_cases message_text_Error)

lemma tool_func_method_error:
  "parseInput rt input tool = Inr args \<Longrightarrow> tool_method tool args = Inl (Error m) \<Longrightarrow>
     tool_func rt tool input = Inr (''Error: '' @ m)"
  by (simp add: tool_func_cases message_text_Error)

lemma createToolsFromMetadata_funcs:
  "map dt_func (createToolsFromMetadata rt tls) = map (\<lambda>(key, tool). tool_func rt tool) tls"
  by (simp add: createToolsFromMetadata_def case_prod_unfold)

lemma tool_func_units:
  "tool_func sample_runtime units_tool ''{\"units\": \"metric\"}'' = Inr ''Units set to metric''
   \<and> tool_func sample_runtime units_tool ''metric please''
       = Inr (''Error: Required parameter '' @ [CHR 0x27] @ ''units'' @ [CHR 0x27]
                @ '' not found in input: '' @ [CHR 0x22] @ ''metric please'' @ [CHR 0x22])
   \<and> tool_func sample_runtime (units_tool\<lparr>parameters := None\<rparr>) ''metric please''
       = Inr ''Error: units must be a string''"
proof -
  have schema: "parameters units_tool
      = Some [(''units'', \<lparr>param_type = ''string'', param_description = ''The unit system'',
                           param_enum = Some [''metric'', ''imperial''], required = True\<rparr>)]"
    by (simp add: units_tool_def)
  have w: "\<forall>q. \<not> builtin_readonly sample_runtime ''Object.prototype'' q"
    by (simp add: sample_runtime_def)
  have ok: "parseInput sample_runtime ''{\"units\": \"metric\"}'' units_tool = Inr (JObj [(''units'', JStr ''metric'')])"
    using parseInput_single_parameter[OF schema, of sample_runtime "''{\"units\": \"metric\"}''"
              "JObj [(''units'', JStr ''metric'')]" "JStr ''metric''"] w
    by (simp add: sample_runtime_def get_property_def nullish_def own_property_def)
  have run: "tool_method units_tool (JObj [(''units'', JStr ''metric'')]) = Inr (JStr ''Units set to metric'')"
    by (simp add: units_tool_def get_property_def nullish_def own_property_def)
  have missing: "parseInput sample_runtime ''metric please'' units_tool =
         Inl (Error (''Required parameter '' @ [CHR 0x27] @ ''units'' @ [CHR 0x27]
                      @ '' not found in input: '' @ [CHR 0x22] @ ''metric please'' @ [CHR 0x22]))"
    using parseInput_missing_parameter[OF schema, of "''units''" sample_runtime "''metric please''"] w
    by (simp add: sample_runtime_def extraction_table_def)
  have raw: "parseInput sample_runtime ''metric please'' (units_tool\<lparr>parameters := None\<rparr>) = Inr (JStr ''metric please'')"
    by (simp add: parseInput_def parseInput_catch_def sample_runtime_def units_tool_def)
  have thrown: "tool_method (units_tool\<lparr>parameters := None\<rparr>) (JStr ''metric please'') = Inl (Error ''units must be a string'')"
    by (simp add: units_tool_def get_property_def nullish_def own_property_def sample_runtime_def
          standard_prototype_def array_index_def is_digit_def code_def)
  show ?thesis
    using tool_func_result[OF ok run] tool_func_resolution_error[OF missing]
      tool_func_method_error[OF raw thrown]
    by simp
qed

text \<open>
  Claim C6, at an input where the code departs from it. The method of the tool rejects
  without a reason, so the value that reaches the \<open>catch\<close> block of the adapter is
  \<open>undefined\<close>. The claim has the adapter return an \<open>Error: ...\<close> string. The \<open>catch\<close> block
  evaluates \<open>error.message\<close>, which throws a TypeError, and the callable of the adapter
  rejects with it. A method that throws \<open>null\<close> has the same effect.
\<close>

theorem tool_adapter_rejects:
  "parseInput sample_runtime ''ping'' rejecting_tool = Inr (JStr ''ping'')
   \<and> tool_method rejecting_tool (JStr ''ping'') = Inl (Thrown PUndefined)
   \<and> tool_func sample_runtime rejecting_tool ''ping'' = Inl TypeError
   \<and> map (\<lambda>t. dt_func t ''ping'') (createToolsFromMetadata sample_runtime [(''ping'', rejecting_tool)])
       = [Inl TypeError]
   \<and> tool_func sample_runtime (rejecting_tool\<lparr>tool_method := (\<lambda>args. Inl (Thrown PNull))\<rparr>) ''ping''
       = Inl TypeError"
proof -
  have a: "parseInput sample_runtime ''ping'' rejecting_tool = Inr (JStr ''ping'')"
    by (simp add: parseInput_def parseInput_catch_def sample_runtime_def rejecting_tool_def)
  have b: "tool_method rejecting_tool (JStr ''ping'') = Inl (Thrown PUndefined)"
    by (simp add: rejecting_tool_def)
  have c: "tool_func sample_runtime rejecting_tool ''ping'' = Inl TypeError"
    by (simp add: tool_func_cases a b message_text_def)
  have a': "parseInput sample_runtime ''ping'' (rejecting_tool\<lparr>tool_method := (\<lambda>args. Inl (Thrown PNull))\<rparr>)
              = Inr (JStr ''ping'')"
    by (simp add: parseInput_def parseInput_catch_def sample_runtime_def rejecting_tool_def)
  have d: "tool_func sample_runtime (rejecting_tool\<lparr>tool_method := (\<lambda>args. Inl (Thrown PNull))\<rparr>) ''ping''
       = Inl TypeError"
    by (simp add: tool_func_cases a' message_text_def)
  show ?thesis
    using a b c d by (simp add: createToolsFromMetadata_def)
qed


section \<open>Properties of the Fallback Dispatcher\<close>

lemma starts_with_iff: "starts_with p s \<longleftrightarrow> (\<exists>after. s = p @ after)"
  by (induction p s rule: starts_with.induct) auto

lemma js_includes_iff: "js_includes s sub \<longleftrightarrow> is_substring sub s"
proof (induction s)
  case Nil
  then show ?case by (auto simp: is_substring_def)
next
  case (Cons c cs)
  have "is_substring sub (c # cs) \<longleftrightarrow> (\<exists>after. c # cs = sub @ after) \<or> is_substring sub cs"
  proof
    assume "is_substring sub (c # cs)"
    then obtain before after where e: "c # cs = before @ sub @ after"
      by (auto simp: is_substring_def)
    show "(\<exists>after. c # cs = sub @ after) \<or> is_substring sub cs"
    proof (cases before)
      case Nil
      then show ?thesis using e by auto
    next
      case (Cons b bs)
      then have "cs = bs @ sub @ after" using e by simp
      then show ?thesis by (auto simp: is_substring_def)
    qed
  next
    assume "(\<exists>after. c # cs = sub @ after) \<or> is_substring sub cs"
    then show "is_substring sub (c # cs)"
    proof
      assume "\<exists>after. c # cs = sub @ after"
      then obtain after where "c # cs = [] @ sub @ after" by auto
      then show ?thesis unfolding is_substring_def by blast
    next
      assume "is_substring sub cs"
      then obtain before after where "cs = before @ sub @ after"
        by (auto simp: is_substring_def)
      then have "c # cs = (c # before) @ sub @ after" by simp
      then show ?thesis unfolding is_substring_def by blast
    qed
  qed
  then show ?case using Cons by (simp add: starts_with_iff)
qed

lemma js_split_not_empty: "js_split sep s \<noteq> []"
  by (induction s) (auto split: list.splits)

lemma js_split_tokens: "w \<in> set (js_split sep s) \<Longrightarrow> sep \<notin> set w"
proof (induction s arbitrary: w)
  case Nil
  then show ?case by simp
next
  case (Cons c cs)
  show ?case
  proof (cases "c = sep")
    case True
    then show ?thesis using Cons by auto
  next
    case False
    obtain v vs where sp: "js_split sep cs = v # vs"
      using js_split_not_empty[of sep cs] by (cases "js_split sep cs") auto
    then have "w = c # v \<or> w \<in> set vs" using Cons.prems False by simp
    then show ?thesis using Cons.IH[of v] Cons.IH[of w] sp False by auto
  qed
qed

lemma js_split_join: "js_join [sep] (js_split sep s) = s"
proof (induction s)
  case Nil
  then show ?case by simp
next
  case (Cons c cs)
  obtain v vs where sp: "js_split sep cs = v # vs"
    using js_split_not_empty[of sep cs] by (cases "js_split sep cs") auto
  show ?case
  proof (cases "c = sep")
    case True
    then show ?thesis using Cons sp by simp
  next
    case False
    then show ?thesis using Cons sp by (cases vs) simp_all
  qed
qed

lemma isRelevant_iff:
  "isRelevant tool input \<longleftrightarrow>
     is_substring (toLowerCase (dt_name tool)) (toLowerCase input)
     \<or> (\<exists>token \<in> set (js_split CHR ''-'' (toLowerCase (dt_name tool))).
           is_substring token (toLowerCase input))
     \<or> (\<exists>word \<in> set (js_split CHR '' '' (toLowerCase (dt_description tool))).
           length word > 3 \<and> is_substring word (toLowerCase input))"
  by (simp add: isRelevant_def Let_def list_ex_iff js_includes_iff)

lemma executeToolsDirectly_step:
  "executeToolsDirectly (tool # rest) (JStr input) =
    (if isRelevant tool input then
       (case dt_func tool input of
          Inr result \<Rightarrow> ''Based on the '' @ dt_name tool @ '' information: '' @ result
        | Inl e \<Rightarrow> executeToolsDirectly rest (JStr input))
     else executeToolsDirectly rest (JStr input))"
  by (simp add: try_catch_def split: sum.splits)

lemma executeToolsDirectly_skip:
  "\<forall>u \<in> set before. skipped u input \<Longrightarrow>
     executeToolsDirectly (before @ rest) (JStr input) = executeToolsDirectly rest (JStr input)"
proof (induction before)
  case Nil
  then show ?case by simp
next
  case (Cons u before)
  then have "skipped u input" and "\<forall>u \<in> set before. skipped u input" by simp_all
  then show ?case
    using Cons.IH by (auto simp: executeToolsDirectly_step skipped_def simp del: executeToolsDirectly.simps split: sum.splits)
qed

text \<open>
  Claim C5. A tool is relevant to an input exactly when, case-insensitively, its name
  appears in the input, or some hyphen-delimited token of its name appears, or some
  space-delimited word of its description longer than 3 characters appears. The scan goes
  through the tools in list order: when it reaches a relevant tool whose invocation on the
  raw input returns, every tool before it having been irrelevant or having thrown, the
  answer is \<open>Based on the <name> information: <result>\<close>; when every tool is irrelevant
  or throws, the answer is the fixed apology.
\<close>

theorem executeToolsDirectly_first_relevant:
  "(isRelevant tool input \<longleftrightarrow>
      is_substring (toLowerCase (dt_name tool)) (toLowerCase input)
      \<or> (\<exists>token \<in> set (js_split CHR ''-'' (toLowerCase (dt_name tool))).
            is_substring token (toLowerCase input))
      \<or> (\<exists>word \<in> set (js_split CHR '' '' (toLowerCase (dt_description tool))).
            length word > 3 \<and> is_substring word (toLowerCase input)))
   \<and> (\<forall>before t rest result.
         tls = before @ t # rest \<and> (\<forall>u \<in> set before. skipped u input)
           \<and> isRelevant t input \<and> dt_func t input = Inr result \<longrightarrow>
         executeToolsDirectly tls (JStr input) = ''Based on the '' @ dt_name t @ '' information: '' @ result)
   \<and> ((\<forall>u \<in> set tls. skipped u input) \<longrightarrow> executeToolsDirectly tls (JStr input) = fallback_apology)"
proof (intro conjI allI impI)
  show "isRelevant tool input \<longleftrightarrow>
      is_substring (toLowerCase (dt_name tool)) (toLowerCase input)
      \<or> (\<exists>token \<in> set (js_split CHR ''-'' (toLowerCase (dt_name tool))).
            is_substring token (toLowerCase input))
      \<or> (\<exists>word \<in> set (js_split CHR '' '' (toLowerCase (dt_description tool))).
            length word > 3 \<and> is_substring word (toLowerCase input))"
    by (rule isRelevant_iff)
next
  fix before t rest result
  assume a: "tls = before @ t # rest \<and> (\<forall>u \<in> set before. skipped u input)
           \<and> isRelevant t input \<and> dt_func t input = Inr result"
  then have "executeToolsDirectly tls (JStr input) = executeToolsDirectly (t # rest) (JStr input)"
    using executeToolsDirectly_skip[of before input "t # rest"] by simp
  then show "executeToolsDirectly tls (JStr input) = ''Based on the '' @ dt_name t @ '' information: '' @ result"
    using a by (simp add: executeToolsDirectly_step del: executeToolsDirectly.simps)
next
  assume "\<forall>u \<in> set tls. skipped u input"
  then show "executeToolsDirectly tls (JStr input) = fallback_apology"
    using executeToolsDirectly_skip[of tls input "[]"] by simp
qed

lemma sample_weather: "isRelevant (sample_tools ! 0) ''Weather or basic math?''"
  by code_simp
lemma sample_calc: "isRelevant (sample_tools ! 1) ''Weather or basic math?''"
  by code_simp
lemma sample_none: "\<not> isRelevant (sample_tools ! 0) ''hello'' \<and> \<not> isRelevant (sample_tools ! 1) ''hello''"
  by code_simp

theorem executeToolsDirectly_first_relevant_witness:
  "executeToolsDirectly sample_tools (JStr ''Weather or basic math?'') = ''Based on the calculator information: 4''
   \<and> executeToolsDirectly sample_tools (JStr ''hello'') = fallback_apology"
proof -
  let ?w = "\<lparr>dt_name = ''get-weather'', dt_description = ''Get current weather for a city'',
      dt_func = (\<lambda>input. Inl (Error ''weather service unavailable''))\<rparr>"
  let ?c = "\<lparr>dt_name = ''calculator'', dt_description = ''Perform basic mathematical calculations'',
      dt_func = (\<lambda>input. Inr ''4'')\<rparr>"
  have tls: "sample_tools = [?w] @ ?c # []" by (simp add: sample_tools_def)
  have w: "skipped ?w ''Weather or basic math?''" by (simp add: skipped_def)
  have c: "isRelevant ?c ''Weather or basic math?''"
    using sample_calc by (simp add: sample_tools_def)
  have n: "\<forall>u \<in> set sample_tools. skipped u ''hello''"
    using sample_none by (simp add: sample_tools_def skipped_def)
  have A: "executeToolsDirectly sample_tools (JStr ''Weather or basic math?'') = ''Based on the calculator information: 4''"
    using executeToolsDirectly_first_relevant [of ?c "''Weather or basic math?''" sample_tools] tls w c
    by fastforce
  have B: "executeToolsDirectly sample_tools (JStr ''hello'') = fallback_apology"
    using executeToolsDirectly_first_relevant [of ?c "''hello''" sample_tools] n by blast
  from A B show ?thesis by blast
qed



section \<open>Properties of the Execution Orchestrator\<close>

lemma invoke_guarded_returns:
  "agentExecutor (context_input context) (case history context of Some h \<Rightarrow> h | None \<Rightarrow> []) = Inr result \<Longrightarrow>
     \<exists>response. invoke_guarded agentExecutor name agentTools tls context = Inr response"
  by (simp add: invoke_guarded_def try_catch_def split: option.splits)

lemma invoke_guarded_error:
  "agentExecutor (context_input context) (case history context of Some h \<Rightarrow> h | None \<Rightarrow> []) = Inl (Error m) \<Longrightarrow>
     invoke_guarded agentExecutor name agentTools tls context =
       Inr \<lparr>response_output = error_apology @ m,
            response_metadata = base_metadata name agentTools tls @ [(''error'', JStr m)]\<rparr>"
  by (simp add: invoke_guarded_def try_catch_def message_text_def)

lemma invoke_guarded_thrown:
  "agentExecutor (context_input context) (case history context of Some h \<Rightarrow> h | None \<Rightarrow> []) = Inl e \<Longrightarrow>
     invoke_guarded agentExecutor name agentTools tls context =
       (case e of
          Error m \<Rightarrow>
            Inr \<lparr>response_output = error_apology @ m,
                 response_metadata = base_metadata name agentTools tls @ [(''error'', JStr m)]\<rparr>
        | Thrown PUndefined \<Rightarrow> Inl TypeError
        | Thrown PNull \<Rightarrow> Inl TypeError
        | Thrown _ \<Rightarrow>
            Inr \<lparr>response_output = error_apology @ ''undefined'',
                 response_metadata = base_metadata name agentTools tls @ [(''error'', JUndefined)]\<rparr>)"
  by (cases e rule: message.cases) (simp_all add: invoke_guarded_def try_catch_def message_text_def)

lemma sample_agent_found:
  "getAgent (registry sample_state) ''units-agent'' = Some \<lparr>metadata = sample_agent, agent_instance = 7\<rparr>"
  by (simp add: sample_state_def saveAgent_def saveTool_def getAgent_def)

lemma sample_agent_tools:
  "agent_tools (registry sample_state) \<lparr>metadata = sample_agent, agent_instance = 7\<rparr> = [(''set-units'', units_tool)]"
  by (simp add: sample_state_def saveAgent_def saveTool_def agent_tools_def getAllTools_def units_tool_def)

text \<open>
  Claim C2, as amended. Let the agent be registered. When the adapters, the model and the
  executor have been created, an invocation of the executor that returns (with an answer,
  or with none so that the fallback dispatch runs, which absorbs the errors of the tools
  itself) makes \<open>executeAgentInternal\<close> return a response, and an \<open>Error\<close> thrown by the
  invocation is caught and answered with the apology followed by the message, which also
  stands under \<open>error\<close> in the metadata. An error thrown while the adapters, the model or
  the executor are created is not caught: it leaves \<open>executeAgentInternal\<close>, and on a
  valid input \<open>executeAgent\<close> throws it to its caller, once the observers have been told
  of it.
\<close>

theorem executeAgentInternal_guards_invocation:
  assumes "getAgent repo name = Some agent"
  shows "(\<forall>tls llm agentExecutor.
            toolCreationStrategy env (agent_tools repo agent) = Inr tls
            \<and> createLLM env (metadata agent) = Inr llm
            \<and> createAgentExecutor env llm tls (createSystemPrompt (metadata agent)) = Inr agentExecutor
          \<longrightarrow>
            (\<forall>result. agentExecutor (context_input context)
                       (case history context of Some h \<Rightarrow> h | None \<Rightarrow> []) = Inr result \<longrightarrow>
               (\<exists>response. executeAgentInternal env repo name context = Inr response))
            \<and> (\<forall>m. agentExecutor (context_input context)
                       (case history context of Some h \<Rightarrow> h | None \<Rightarrow> []) = Inl (Error m) \<longrightarrow>
                   executeAgentInternal env repo name context =
                     Inr \<lparr>response_output = error_apology @ m,
                          response_metadata =
                            base_metadata name (agent_tools repo agent) tls
                              @ [(''error'', JStr m)]\<rparr>))
       \<and> (\<forall>e. toolCreationStrategy env (agent_tools repo agent) = Inl e \<longrightarrow>
              executeAgentInternal env repo name context = Inl e)
       \<and> (\<forall>tls e. toolCreationStrategy env (agent_tools repo agent) = Inr tls
                   \<and> createLLM env (metadata agent) = Inl e \<longrightarrow>
              executeAgentInternal env repo name context = Inl e)
       \<and> (\<forall>tls llm e. toolCreationStrategy env (agent_tools repo agent) = Inr tls
                   \<and> createLLM env (metadata agent) = Inr llm
                   \<and> createAgentExecutor env llm tls (createSystemPrompt (metadata agent)) = Inl e \<longrightarrow>
              executeAgentInternal env repo name context = Inl e)
       \<and> (\<forall>st m. registry st = repo \<and> non_empty_string (context_input context)
                   \<and> executeAgentInternal env repo name context = Inl (Error m)
                   \<and> notifyObservers env (AgentErrored name (JStr m)) = None \<longrightarrow>
              executeAgent env st name (Some context)
                = (Inl (Error m), st\<lparr>emitted := emitted st @ [AgentErrored name (JStr m)]\<rparr>))"
proof -
  have outer: "\<forall>st m. registry st = repo \<and> non_empty_string (context_input context)
                   \<and> executeAgentInternal env repo name context = Inl (Error m)
                   \<and> notifyObservers env (AgentErrored name (JStr m)) = None \<longrightarrow>
              executeAgent env st name (Some context)
                = (Inl (Error m), st\<lparr>emitted := emitted st @ [AgentErrored name (JStr m)]\<rparr>)"
    using assms
    by (auto simp: executeAgent_def executeAgent_catch_def non_empty_string_def split: js_value.splits)
  show ?thesis
    using assms invoke_guarded_returns invoke_guarded_error outer
    by (auto simp: executeAgentInternal_def)
qed

theorem executeAgentInternal_guards_invocation_witness:
  "executeAgentInternal timeout_env (registry sample_state) ''units-agent'' sample_request =
     Inr \<lparr>response_output = ''I encountered an error while processing your request: model timed out'',
          response_metadata =
            [(''agentName'', JStr ''units-agent''), (''tools'', JArr [JStr ''set-units'']),
             (''availableTools'', JArr [JStr ''set-units'']), (''error'', JStr ''model timed out'')]\<rparr>"
proof -
  let ?tls = "createToolsFromMetadata sample_runtime [(''set-units'', units_tool)]"
  let ?ex = "\<lambda>(input :: js_value) (chat_history :: (string \<times> string) list).
               (Inl (Error ''model timed out'') :: error + string option)"
  have a: "toolCreationStrategy timeout_env (agent_tools (registry sample_state) \<lparr>metadata = sample_agent, agent_instance = 7\<rparr>) = Inr ?tls"
    by (simp add: timeout_env_def sample_env_def default_strategy_def sample_agent_tools)
  have b: "createLLM timeout_env (metadata \<lparr>metadata = sample_agent, agent_instance = 7\<rparr>) = Inr ()"
    by (simp add: timeout_env_def sample_env_def)
  have c: "createAgentExecutor timeout_env () ?tls (createSystemPrompt (metadata \<lparr>metadata = sample_agent, agent_instance = 7\<rparr>)) = Inr ?ex"
    by (simp add: timeout_env_def sample_env_def)
  have "executeAgentInternal timeout_env (registry sample_state) ''units-agent'' sample_request =
     Inr \<lparr>response_output = error_apology @ ''model timed out'',
          response_metadata =
            base_metadata ''units-agent'' (agent_tools (registry sample_state) \<lparr>metadata = sample_agent, agent_instance = 7\<rparr>) ?tls
              @ [(''error'', JStr ''model timed out'')]\<rparr>"
    using executeAgentInternal_guards_invocation [OF sample_agent_found, of timeout_env sample_request] a b c
    by blast
  then show ?thesis
    by (simp add: sample_agent_tools base_metadata_def error_apology_def createToolsFromMetadata_def units_tool_def)
qed


text \<open>
  The claim as stated, for any error thrown during steps 3 to 6, fails for the errors
  thrown before the \<open>try\<close> block: when the factory cannot create the model, or the
  strategy cannot build the adapters, the error leaves \<open>executeAgentInternal\<close> and
  \<open>executeAgent\<close> throws it to its caller.
\<close>

theorem executeAgentInternal_setup_error_counterexample:
  "executeAgentInternal no_provider_env (registry sample_state) ''units-agent'' sample_request
     = Inl (Error ''Unsupported AI provider type: none'')
   \<and> fst (executeAgent no_provider_env sample_state ''units-agent'' (Some sample_request))
     = Inl (Error ''Unsupported AI provider type: none'')
   \<and> executeAgentInternal failing_strategy_env (registry sample_state) ''units-agent'' sample_request
     = Inl (Error ''cannot build tools'')
   \<and> fst (executeAgent failing_strategy_env sample_state ''units-agent'' (Some sample_request))
     = Inl (Error ''cannot build tools'')"
  by (simp add: executeAgent_def executeAgent_catch_def executeAgentInternal_def sample_agent_found
        sample_agent_tools no_provider_env_def failing_strategy_env_def sample_env_def
        default_strategy_def sample_request_def)

text \<open>
  An invocation that rejects without a reason is outside the amended claim: the \<open>catch\<close>
  block of \<open>executeAgentInternal\<close> reads \<open>error.message\<close> of \<open>undefined\<close>, and the
  TypeError of that read leaves the function.
\<close>

lemma executeAgentInternal_rejection:
  "executeAgentInternal rejecting_env (registry sample_state) ''units-agent'' sample_request
     = Inl TypeError"
  by (simp add: executeAgentInternal_def sample_agent_found sample_agent_tools rejecting_env_def
        sample_env_def default_strategy_def invoke_guarded_def try_catch_def)


text \<open>
  Claim C10. \<open>executeAgent\<close> throws, with the state of the service unchanged and whatever
  the collaborators are, when the context is absent, when the input is no non-empty
  string, and when the input is valid but the registry has no agent of the given name;
  the last error names the agent.
\<close>

theorem executeAgent_preconditions:
  "(context_opt = None \<longrightarrow>
      executeAgent env st name context_opt
        = (Inl (Error ''Context is required for agent execution''), st))
   \<and> (\<forall>context. context_opt = Some context \<and> \<not> non_empty_string (context_input context) \<longrightarrow>
      executeAgent env st name context_opt
        = (Inl (Error ''Valid input string is required for agent execution''), st))
   \<and> (\<forall>context. context_opt = Some context \<and> non_empty_string (context_input context)
         \<and> getAgent (registry st) name = None \<longrightarrow>
      executeAgent env st name context_opt
        = (Inl (Error (''Agent '' @ name @ '' not found'')), st))
   \<and> (context_opt = None
        \<or> (\<exists>context. context_opt = Some context \<and> \<not> non_empty_string (context_input context))
        \<or> getAgent (registry st) name = None \<longrightarrow>
      (\<exists>e. executeAgent env st name context_opt = (Inl e, st)))"
  by (cases context_opt)
     (auto simp: executeAgent_def non_empty_string_def split: js_value.splits)

theorem executeAgent_preconditions_witness:
  "executeAgent sample_env sample_state ''units-agent'' None
     = (Inl (Error ''Context is required for agent execution''), sample_state)
   \<and> executeAgent sample_env sample_state ''units-agent'' (Some (sample_request\<lparr>context_input := JUndefined\<rparr>))
     = (Inl (Error ''Valid input string is required for agent execution''), sample_state)
   \<and> executeAgent sample_env sample_state ''weather-agent'' (Some sample_request)
     = (Inl (Error ''Agent weather-agent not found''), sample_state)"
proof -
  have u: "\<not> non_empty_string (context_input (sample_request\<lparr>context_input := JUndefined\<rparr>))"
    by (simp add: non_empty_string_def)
  have s: "non_empty_string (context_input sample_request)"
    by (simp add: non_empty_string_def sample_request_def)
  have g: "getAgent (registry sample_state) ''weather-agent'' = None"
    by (simp add: sample_state_def saveAgent_def saveTool_def getAgent_def)
  have A: "executeAgent sample_env sample_state ''units-agent'' None
     = (Inl (Error ''Context is required for agent execution''), sample_state)"
    using executeAgent_preconditions [of None sample_env sample_state "''units-agent''"] by blast
  have B: "executeAgent sample_env sample_state ''units-agent'' (Some (sample_request\<lparr>context_input := JUndefined\<rparr>))
     = (Inl (Error ''Valid input string is required for agent execution''), sample_state)"
    using executeAgent_preconditions
            [of "Some (sample_request\<lparr>context_input := JUndefined\<rparr>)" sample_env sample_state "''units-agent''"] u
    by blast
  have C: "executeAgent sample_env sample_state ''weather-agent'' (Some sample_request)
     = (Inl (Error (''Agent '' @ ''weather-agent'' @ '' not found'')), sample_state)"
    using executeAgent_preconditions
            [of "Some sample_request" sample_env sample_state "''weather-agent''"] s g
    by blast
  from A B C show ?thesis by simp
qed


section \<open>Properties of the Middleware Pipeline\<close>

lemma execute_some:
  "execute provider md core (Some context) =
    (case core (agentName provider) (Some (processedContext provider md context)) of
       Inl e \<Rightarrow> (case message e of Inl thrown \<Rightarrow> Inl thrown | Inr m \<Rightarrow> Inl e)
     | Inr result \<Rightarrow>
        if nullish (context_input context) then Inl TypeError
        else Inr (finalResult provider md context result))"
  by (simp add: execute_def try_catch_def TypeError_def split: sum.splits)

lemma sample_core_answers:
  "sample_core ''units-agent'' (Some sample_request) = Inr sample_response"
  by (simp add: sample_core_def executeAgent_def executeAgentInternal_def sample_agent_found
        sample_agent_tools sample_env_def default_strategy_def sample_request_def
        invoke_guarded_def try_catch_def max_iterations_sentinel_def base_metadata_def
        createToolsFromMetadata_def units_tool_def sample_response_def)

text \<open>
  Claim C3. The request context is one the pipeline can read: its input is neither
  \<open>undefined\<close> nor \<open>null\<close>, as is every context of the declared type \<open>AgentContext\<close>, whose
  input is a string. When the before hook throws, whatever it throws, the core
  execution receives the original context and the pipeline does what that of a provider
  without a before hook does: the hook's error reaches nobody. When the after hook
  throws, the pipeline returns the response of the core execution as it is. When the
  core execution throws, the pipeline throws: the error of the core execution, or
  the TypeError of reading a message from a thrown \<open>null\<close> or \<open>undefined\<close>.
\<close>

theorem execute_isolates_hooks:
  assumes readable: "\<not> nullish (context_input context)"
  shows "(\<forall>before e. beforeModelCall provider = Some before \<and> before context md = Inl e \<longrightarrow>
       processedContext provider md context = context
       \<and> execute provider md core (Some context)
           = execute (provider\<lparr>beforeModelCall := None\<rparr>) md core (Some context))
   \<and> (\<forall>after e result.
         afterModelCall provider = Some after \<and> after context result md = Inl e
         \<and> core (agentName provider) (Some (processedContext provider md context)) = Inr result \<longrightarrow>
       execute provider md core (Some context) = Inr result)
   \<and> (\<forall>e. core (agentName provider) (Some (processedContext provider md context)) = Inl e \<longrightarrow>
       (\<exists>thrown. execute provider md core (Some context) = Inl thrown)
       \<and> (\<forall>m. message e = Inr m \<longrightarrow> execute provider md core (Some context) = Inl e))"
proof (intro conjI allI impI)
  fix before e
  assume a: "beforeModelCall provider = Some before \<and> before context md = Inl e"
  then show p: "processedContext provider md context = context"
    by (simp add: processedContext_def)
  show "execute provider md core (Some context)
           = execute (provider\<lparr>beforeModelCall := None\<rparr>) md core (Some context)"
    unfolding execute_some p by (simp add: processedContext_def finalResult_def split: sum.splits)
next
  fix after e result
  assume a: "afterModelCall provider = Some after \<and> after context result md = Inl e
         \<and> core (agentName provider) (Some (processedContext provider md context)) = Inr result"
  then show "execute provider md core (Some context) = Inr result"
    using readable by (simp add: execute_some finalResult_def)
next
  fix e
  assume "core (agentName provider) (Some (processedContext provider md context)) = Inl e"
  then show "\<exists>thrown. execute provider md core (Some context) = Inl thrown"
    by (simp add: execute_some split: sum.splits)
next
  fix e m
  assume "core (agentName provider) (Some (processedContext provider md context)) = Inl e"
    and "message e = Inr m"
  then show "execute provider md core (Some context) = Inl e"
    by (simp add: execute_some)
qed

theorem execute_isolates_hooks_witness:
  "execute failing_hooks () sample_core (Some sample_request) = Inr sample_response
   \<and> execute failing_hooks () sample_core (Some (sample_request\<lparr>context_input := JStr ''''\<rparr>))
       = Inl (Error ''Valid input string is required for agent execution'')"
proof -
  let ?before = "\<lambda>(context :: agent_context) (md :: unit). (Inl (Error ''before failed'') :: error + agent_context)"
  let ?after = "\<lambda>(context :: agent_context) (response :: agent_response) (md :: unit).
                  (Inl (Error ''after failed'') :: error + agent_response)"
  let ?empty = "sample_request\<lparr>context_input := JStr ''''\<rparr>"
  have r1: "\<not> nullish (context_input sample_request)"
    by (simp add: nullish_def sample_request_def)
  have r2: "\<not> nullish (context_input ?empty)"
    by (simp add: nullish_def)
  note h = execute_isolates_hooks [OF r1, of failing_hooks "()" sample_core]
  have b: "beforeModelCall failing_hooks = Some ?before \<and> ?before sample_request () = Inl (Error ''before failed'')"
    by (simp add: failing_hooks_def)
  have p: "processedContext failing_hooks () sample_request = sample_request"
    using h [THEN conjunct1, rule_format, OF b] by simp
  have n: "agentName failing_hooks = ''units-agent''"
    by (simp add: failing_hooks_def)
  have a: "afterModelCall failing_hooks = Some ?after \<and> ?after sample_request sample_response () = Inl (Error ''after failed'')
         \<and> sample_core (agentName failing_hooks) (Some (processedContext failing_hooks () sample_request)) = Inr sample_response"
    unfolding p n sample_core_answers by (simp add: failing_hooks_def)
  have A: "execute failing_hooks () sample_core (Some sample_request) = Inr sample_response"
    using h [THEN conjunct2, THEN conjunct1, rule_format, OF a] .
  note g = execute_isolates_hooks [OF r2, of failing_hooks "()" sample_core]
  have b': "beforeModelCall failing_hooks = Some ?before \<and> ?before ?empty () = Inl (Error ''before failed'')"
    by (simp add: failing_hooks_def)
  have q: "processedContext failing_hooks () ?empty = ?empty"
    using g [THEN conjunct1, rule_format, OF b'] by simp
  have c: "sample_core (agentName failing_hooks) (Some (processedContext failing_hooks () ?empty))
             = Inl (Error ''Valid input string is required for agent execution'')"
    unfolding q n by (simp add: sample_core_def executeAgent_def sample_request_def)
  have m: "message (Error ''Valid input string is required for agent execution'')
             = Inr (JStr ''Valid input string is required for agent execution'')"
    by simp
  have B: "execute failing_hooks () sample_core (Some ?empty)
       = Inl (Error ''Valid input string is required for agent execution'')"
    using g [THEN conjunct2, THEN conjunct2, rule_format, OF c, THEN conjunct2, rule_format, OF m] .
  from A B show ?thesis by blast
qed


end
